theory Spec2Isabelle
  imports Complex_Main "HOL-Library.Sublist" "HOL-Library.Word"
begin

section \<open>Python values\<close>

text \<open>
  A Python \<open>str\<close> is a sequence of Unicode code points; it is modelled as a list of
  natural numbers, one per code point. \<open>ustr\<close> turns an ASCII literal into such a list.
\<close>

type_synonym ustring = "nat list"

definition ustr :: "string \<Rightarrow> ustring" where
  "ustr s = map of_char s"

text \<open>A value decoded by \<open>json.loads\<close>. A JSON object is a \<open>dict\<close>, kept as the list
  of its items in insertion order; its keys are distinct.\<close>

datatype json =
    JNull
  | JBool bool
  | JInt int
  | JFloat real
  | JString ustring
  | JArray "json list"
  | JObject "(ustring \<times> json) list"

text \<open>A \<open>datetime\<close>.\<close>

record datetime =
  year :: nat
  month :: nat
  day :: nat
  hour :: nat
  minute :: nat
  second :: nat

text \<open>
  Functions of the Python standard library and of third-party packages that the
  repository calls but does not define, where the model does not spell them out, are
  collected in one record and passed to every function of the model that needs them.
  \<^item> \<open>py_float\<close>: \<open>float(s)\<close>, \<open>None\<close> when it raises \<open>ValueError\<close>;
  \<^item> \<open>uni_nfkc\<close>: \<open>unicodedata.normalize('NFKC', s)\<close> for a string with a code point
    above 127 (on ASCII strings it is the identity);
  \<^item> \<open>uni_lower\<close>: \<open>s.lower()\<close> for a string with a code point above 127;
  \<^item> \<open>uni_isalnum\<close>, \<open>uni_isspace\<close>: \<open>c.isalnum()\<close> and the whitespace test of
    \<open>str.split\<close>, \<open>str.strip\<close> and the regular expression class \<open>\s\<close>, for a
    code point above 127;
  \<^item> \<open>utf8_decode_invalid\<close>: \<open>bs.decode('utf-8', 'replace')\<close> for bytes that are not
    valid UTF-8;
  \<^item> \<open>check_bracketed_host\<close>: \<open>urllib.parse._check_bracketed_host\<close> returns without
    raising;
  \<^item> \<open>sha256_hexdigest\<close>: \<open>hashlib.sha256(s.encode('utf-8')).hexdigest()\<close>;
  \<^item> \<open>simhash_value\<close>: the 64-bit fingerprint \<open>Simhash(s).value\<close>;
  \<^item> \<open>strftime\<close>: \<open>d.strftime(format)\<close>;
  \<^item> \<open>json_loads\<close>: \<open>json.loads(s)\<close>, \<open>None\<close> when it raises \<open>JSONDecodeError\<close>;
  \<^item> \<open>json_str\<close>: \<open>str(v)\<close> for a decoded JSON value that is not a string.
\<close>

record pylib =
  py_float :: "ustring \<Rightarrow> real option"
  uni_nfkc :: "ustring \<Rightarrow> ustring"
  uni_lower :: "ustring \<Rightarrow> ustring"
  uni_isalnum :: "nat \<Rightarrow> bool"
  uni_isspace :: "nat \<Rightarrow> bool"
  utf8_decode_invalid :: "nat list \<Rightarrow> ustring"
  check_bracketed_host :: "ustring \<Rightarrow> bool"
  sha256_hexdigest :: "ustring \<Rightarrow> ustring"
  simhash_value :: "ustring \<Rightarrow> 64 word"
  strftime :: "datetime \<Rightarrow> ustring \<Rightarrow> ustring"
  json_loads :: "ustring \<Rightarrow> json option"
  json_str :: "json \<Rightarrow> ustring"

subsection \<open>String methods\<close>

definition is_ascii :: "nat \<Rightarrow> bool" where
  "is_ascii c \<longleftrightarrow> c < 128"

definition ascii_upper_letter :: "nat \<Rightarrow> bool" where
  "ascii_upper_letter c \<longleftrightarrow> 65 \<le> c \<and> c \<le> 90"

definition ascii_lower_letter :: "nat \<Rightarrow> bool" where
  "ascii_lower_letter c \<longleftrightarrow> 97 \<le> c \<and> c \<le> 122"

definition ascii_digit :: "nat \<Rightarrow> bool" where
  "ascii_digit c \<longleftrightarrow> 48 \<le> c \<and> c \<le> 57"

definition ascii_lower :: "nat \<Rightarrow> nat" where
  "ascii_lower c = (if ascii_upper_letter c then c + 32 else c)"

text \<open>The ASCII whitespace of Python: tab, line feed, vertical tab, form feed, carriage
  return, the four separators \<open>0x1c\<close> to \<open>0x1f\<close>, and space.\<close>

definition ascii_isspace :: "nat \<Rightarrow> bool" where
  "ascii_isspace c \<longleftrightarrow> (9 \<le> c \<and> c \<le> 13) \<or> (28 \<le> c \<and> c \<le> 32)"

definition py_isspace :: "pylib \<Rightarrow> nat \<Rightarrow> bool" where
  "py_isspace L c = (if is_ascii c then ascii_isspace c else uni_isspace L c)"

definition py_isalnum :: "pylib \<Rightarrow> nat \<Rightarrow> bool" where
  "py_isalnum L c =
     (if is_ascii c then ascii_digit c \<or> ascii_upper_letter c \<or> ascii_lower_letter c
      else uni_isalnum L c)"

text \<open>\<open>s.lower()\<close> and \<open>unicodedata.normalize('NFKC', s)\<close>.\<close>

definition py_lower :: "pylib \<Rightarrow> ustring \<Rightarrow> ustring" where
  "py_lower L s = (if list_all is_ascii s then map ascii_lower s else uni_lower L s)"

definition py_nfkc :: "pylib \<Rightarrow> ustring \<Rightarrow> ustring" where
  "py_nfkc L s = (if list_all is_ascii s then s else uni_nfkc L s)"

text \<open>\<open>s.split()\<close>: the maximal runs of characters that are not whitespace. The second
  argument is the run read so far.\<close>

fun split_whitespace :: "pylib \<Rightarrow> ustring \<Rightarrow> ustring \<Rightarrow> ustring list" where
  "split_whitespace L cur [] = (if cur = [] then [] else [cur])"
| "split_whitespace L cur (c # cs) =
     (if py_isspace L c
      then (if cur = [] then split_whitespace L [] cs else cur # split_whitespace L [] cs)
      else split_whitespace L (cur @ [c]) cs)"

definition py_split :: "pylib \<Rightarrow> ustring \<Rightarrow> ustring list" where
  "py_split L s = split_whitespace L [] s"

text \<open>\<open>sep.join(parts)\<close>.\<close>

fun join :: "ustring \<Rightarrow> ustring list \<Rightarrow> ustring" where
  "join sep [] = []"
| "join sep [x] = x"
| "join sep (x # y # ys) = x @ sep @ join sep (y # ys)"

text \<open>\<open>s.strip()\<close>, \<open>s.rstrip(chars)\<close> for one character, \<open>s.startswith(p)\<close>.\<close>

definition py_strip :: "pylib \<Rightarrow> ustring \<Rightarrow> ustring" where
  "py_strip L s = rev (dropWhile (py_isspace L) (rev (dropWhile (py_isspace L) s)))"

definition rstrip_char :: "nat \<Rightarrow> ustring \<Rightarrow> ustring" where
  "rstrip_char c s = rev (dropWhile (\<lambda>x. x = c) (rev s))"

definition startswith :: "ustring \<Rightarrow> ustring \<Rightarrow> bool" where
  "startswith s p \<longleftrightarrow> take (length p) s = p"

text \<open>\<open>s.split(c)\<close> for a separator of one character: the pieces between the
  separators, empty pieces included. The second argument is the piece read so far.\<close>

fun split_on :: "nat \<Rightarrow> ustring \<Rightarrow> ustring \<Rightarrow> ustring list" where
  "split_on sep cur [] = [cur]"
| "split_on sep cur (c # cs) =
     (if c = sep then cur # split_on sep [] cs else split_on sep (cur @ [c]) cs)"

text \<open>\<open>s.partition(c)\<close> without its middle component: the text before the first \<open>c\<close>
  and the text after it (empty when \<open>c\<close> does not occur).\<close>

definition partition_at :: "nat \<Rightarrow> ustring \<Rightarrow> ustring \<times> ustring" where
  "partition_at c s = (takeWhile (\<lambda>x. x \<noteq> c) s, drop 1 (dropWhile (\<lambda>x. x \<noteq> c) s))"

section \<open>app/utils/rate\_limiter.py\<close>

text \<open>
  The exceptions of the model. An
  \<open>httpx.HTTPStatusError\<close> carries the status code of its response and the value of
  the response's \<open>Retry-After\<close> header, if present. \<open>RateLimitError\<close> carries its
  \<open>retry_after\<close> attribute. \<open>ValidationError\<close> (pydantic), \<open>AIAnalysisError\<close>
  and \<open>OtherError\<close> (any exception not listed) carry their message \<open>str(e)\<close>; the
  messages of the others are left out.
\<close>

datatype exn =
    HTTPStatusError nat "ustring option"
  | ConnectError
  | TimeoutException
  | RateLimitError "real option"
  | ValueError
  | RuntimeError
  | TypeError
  | AttributeError
  | UnicodeEncodeError
  | ValidationError ustring
  | AIAnalysisError ustring
  | OtherError ustring
  | UnboundLocalError
  | CancelledError
  | KeyboardInterrupt
  | SystemExit

text \<open>\<open>isinstance(e, Exception)\<close>: \<open>asyncio.CancelledError\<close>, \<open>KeyboardInterrupt\<close> and
  \<open>SystemExit\<close> derive from \<open>BaseException\<close> only, so a clause \<open>except Exception\<close>
  does not catch them.\<close>

definition is_exception :: "exn \<Rightarrow> bool" where
  "is_exception e \<longleftrightarrow> e \<notin> {CancelledError, KeyboardInterrupt, SystemExit}"

text \<open>\<open>RateLimiter._parse_retry_after\<close>: a missing or empty header, and one that
  \<open>float\<close> rejects (an HTTP date), give \<open>None\<close>.\<close>

definition parse_retry_after :: "pylib \<Rightarrow> ustring option \<Rightarrow> real option" where
  "parse_retry_after L header =
     (case header of
        None \<Rightarrow> None
      | Some retry_after \<Rightarrow> if retry_after \<noteq> [] then py_float L retry_after else None)"

text \<open>
  \<open>RateLimiter._calculate_backoff\<close>. The draw \<open>random.uniform(0.75, 1.25)\<close> is the
  argument \<open>jitter\<close>. \<open>if retry_after:\<close> is false for \<open>None\<close> and for \<open>0.0\<close>.
  Python floats are modelled as reals: \<open>2 ** attempt\<close> is a power of two, so the
  product, \<open>max\<close> and \<open>min\<close> are computed without rounding.
\<close>

definition calculate_backoff :: "nat \<Rightarrow> real \<Rightarrow> real option \<Rightarrow> real" where
  "calculate_backoff attempt jitter retry_after =
     (let base_wait = 2 ^ attempt;
          wait_time = base_wait * jitter;
          wait_time' = (case retry_after of
                          None \<Rightarrow> wait_time
                        | Some r \<Rightarrow> if r \<noteq> 0 then max wait_time r else wait_time)
      in min wait_time' 60)"

text \<open>
  \<open>RateLimiter.execute\<close>. The wrapped operation is \<open>func\<close>: its outcome at the call
  made in attempt \<open>n\<close> is \<open>func n\<close> (\<open>Inl\<close> an exception, \<open>Inr\<close> the value returned).
  \<open>limiters\<close> are the keys of \<open>self._limiters\<close>; \<open>acquire\<close> raises \<open>ValueError\<close>
  for any other name, which no \<open>except\<close> clause of \<open>execute\<close> catches. \<open>jitter n\<close>
  is the random draw of attempt \<open>n\<close>. The result is paired with the list of durations
  passed to \<open>asyncio.sleep\<close>, in order.
  The list argument is the rest of \<open>range(max_retries + 1)\<close>.
\<close>

fun execute_attempts ::
  "pylib \<Rightarrow> ustring list \<Rightarrow> ustring \<Rightarrow> (nat \<Rightarrow> exn + 'a) \<Rightarrow> (nat \<Rightarrow> real) \<Rightarrow> int
     \<Rightarrow> nat list \<Rightarrow> real list \<Rightarrow> exn option \<Rightarrow> (exn + 'a) \<times> real list" where
  "execute_attempts L limiters api_name func jitter max_retries [] sleeps last_error =
     (case last_error of
        Some e \<Rightarrow> (Inl e, sleeps)
      | None \<Rightarrow> (Inl RuntimeError, sleeps))"
| "execute_attempts L limiters api_name func jitter max_retries (attempt # rest) sleeps last_error =
     (if api_name \<notin> set limiters then (Inl ValueError, sleeps)
      else
        case func attempt of
          Inr result \<Rightarrow> (Inr result, sleeps)
        | Inl (HTTPStatusError status_code header) \<Rightarrow>
            if status_code = 429 then
              (let retry_after = parse_retry_after L header in
               if int attempt < max_retries then
                 (let wait_time = calculate_backoff attempt (jitter attempt) retry_after in
                  execute_attempts L limiters api_name func jitter max_retries rest
                    (sleeps @ [wait_time]) (Some (HTTPStatusError status_code header)))
               else (Inl (RateLimitError retry_after), sleeps))
            else if status_code \<in> {500, 502, 503, 504} then
              (if int attempt < max_retries then
                 (let wait_time = calculate_backoff attempt (jitter attempt) None in
                  execute_attempts L limiters api_name func jitter max_retries rest
                    (sleeps @ [wait_time]) (Some (HTTPStatusError status_code header)))
               else (Inl (HTTPStatusError status_code header), sleeps))
            else (Inl (HTTPStatusError status_code header), sleeps)
        | Inl ConnectError \<Rightarrow>
            if int attempt < max_retries then
              (let wait_time = calculate_backoff attempt (jitter attempt) None in
               execute_attempts L limiters api_name func jitter max_retries rest
                 (sleeps @ [wait_time]) (Some ConnectError))
            else (Inl ConnectError, sleeps)
        | Inl TimeoutException \<Rightarrow>
            if int attempt < max_retries then
              (let wait_time = calculate_backoff attempt (jitter attempt) None in
               execute_attempts L limiters api_name func jitter max_retries rest
                 (sleeps @ [wait_time]) (Some TimeoutException))
            else (Inl TimeoutException, sleeps)
        | Inl e \<Rightarrow> (Inl e, sleeps))"

definition execute ::
  "pylib \<Rightarrow> ustring list \<Rightarrow> ustring \<Rightarrow> (nat \<Rightarrow> exn + 'a) \<Rightarrow> (nat \<Rightarrow> real) \<Rightarrow> int
     \<Rightarrow> (exn + 'a) \<times> real list" where
  "execute L limiters api_name func jitter max_retries =
     execute_attempts L limiters api_name func jitter max_retries
       [0 ..< nat (max_retries + 1)] [] None"

text \<open>The failures \<open>execute\<close> retries: HTTP 429, HTTP 500/502/503/504, and the two
  network errors.\<close>

fun retryable :: "exn \<Rightarrow> bool" where
  "retryable (HTTPStatusError status_code header) = (status_code \<in> {429, 500, 502, 503, 504})"
| "retryable ConnectError = True"
| "retryable TimeoutException = True"
| "retryable e = False"

text \<open>What \<open>execute\<close> raises when the last permitted attempt fails with a retryable
  failure \<open>e\<close>.\<close>

fun exhausted_error :: "pylib \<Rightarrow> exn \<Rightarrow> exn" where
  "exhausted_error L (HTTPStatusError status_code header) =
     (if status_code = 429 then RateLimitError (parse_retry_after L header)
      else HTTPStatusError status_code header)"
| "exhausted_error L e = e"

text \<open>The \<open>Retry-After\<close> value that \<open>execute\<close> hands to \<open>_calculate_backoff\<close> after the
  retryable failure \<open>e\<close>: the parsed header of a 429 response, and nothing (the default
  \<open>None\<close>) after a 5xx response or a network error.\<close>

fun backoff_retry_after :: "pylib \<Rightarrow> exn \<Rightarrow> real option" where
  "backoff_retry_after L (HTTPStatusError status_code header) =
     (if status_code = 429 then parse_retry_after L header else None)"
| "backoff_retry_after L e = None"


section \<open>app/core/pipeline.py\<close>

text \<open>\<open>Pipeline.stats\<close>, the per-stage counters of a run.\<close>

record stats =
  raw_collected :: nat
  after_normalize :: nat
  after_dedup :: nat
  analyzed_success :: nat
  analyzed_failed :: nat
  delivered :: nat

text \<open>\<open>PipelineRunUpdate\<close> as \<open>_update_pipeline_run\<close> fills it (\<open>finished_at\<close> is
  left out); the six counter fields are kept together in \<open>counters\<close>.\<close>

record PipelineRunUpdate =
  status :: "ustring option"
  counters :: stats
  error_log :: "ustring option"

text \<open>The \<open>Digest\<close> built by step 7 of \<open>run\<close>: its four totals, and the numbers of
  items and of ticker summaries it holds.\<close>

record Digest =
  total_collected :: nat
  total_after_dedup :: nat
  total_analyzed :: nat
  total_failed :: nat
  items_count :: nat
  ticker_summaries_count :: nat

text \<open>
  An exception that leaves a stage of the pipeline. \<open>Failure m\<close> is an instance of
  \<open>Exception\<close> whose \<open>str(e)\<close> is \<open>m\<close>. \<open>Interrupt\<close> is an exception that is not an
  instance of \<open>Exception\<close> (\<open>asyncio.CancelledError\<close>, \<open>KeyboardInterrupt\<close>,
  \<open>SystemExit\<close>, \<open>GeneratorExit\<close>): no clause \<open>except Exception\<close> catches it.
\<close>

datatype raised_exc =
    Failure ustring
  | Interrupt

text \<open>
  What \<open>_analyze_and_save\<close> did: how often it bumped \<open>analyzed_success\<close> and
  \<open>analyzed_failed\<close> (a per-item analysis that raises an \<open>Exception\<close> is caught and
  counted as failed, and the item stays in the digest), how many digest items it
  built, and the exception that left it, if any.
\<close>

record analysis_stage =
  succeeded :: nat
  failed :: nat
  digest_items :: nat
  raised :: "raised_exc option"

text \<open>
  What \<open>_deliver_to_notion\<close> did: the body of its \<open>try\<close> ran to its end; or it
  raised an \<open>Exception\<close> and the handler marked the delivery log as failed (or
  swallowed a second failure in its bare \<open>except\<close>); or an exception left the
  function: an \<open>Exception\<close> raised by the handler's own
  \<open>async with async_session_maker()\<close>, which stands outside the inner \<open>try\<close>, or an
  exception that is no \<open>Exception\<close>.
\<close>

datatype notion_outcome =
    NotionDelivered
  | NotionFailed
  | NotionRaised raised_exc

text \<open>
  \<open>_deliver_to_markdown\<close> and \<open>_update_pipeline_run\<close> consist of one \<open>try\<close> with the
  handler \<open>except Exception\<close>, which logs: they deliver (write), or catch their
  failure, or are left by an exception that is no \<open>Exception\<close>.
\<close>

datatype markdown_outcome =
    MarkdownDelivered
  | MarkdownFailed
  | MarkdownInterrupted

datatype update_outcome =
    UpdateWritten
  | UpdateFailed
  | UpdateInterrupted

text \<open>
  The collaborators of one run, as the outcomes they produce.
  \<^item> \<open>load_watchlist_outcome\<close>: step 1 (loading the watchlist and building the ticker
    list and thesis map) raises or returns;
  \<^item> \<open>collect_news_outcome\<close>: \<open>_collect_news\<close> raises, or returns \<open>len(raw_items)\<close>; it
    catches the \<open>Exception\<close> of each collector;
  \<^item> \<open>process_outcome\<close>: \<open>DataProcessor.process\<close> raises, or returns
    \<open>len(normalized_items)\<close>;
  \<^item> \<open>generate_ticker_summaries_outcome\<close>: raises, or returns the number of
    summaries together with the number of tickers whose summary generation failed and
    was replaced by the counting fallback;
  \<^item> \<open>outputs\<close>: \<open>settings.outputs\<close>;
  \<^item> \<open>update_outcome\<close>: the one call of \<open>_update_pipeline_run\<close> that a run makes.
\<close>

record world =
  load_watchlist_outcome :: "raised_exc + unit"
  collect_news_outcome :: "raised_exc + nat"
  process_outcome :: "raised_exc + nat"
  analyze_and_save_outcome :: analysis_stage
  generate_ticker_summaries_outcome :: "raised_exc + nat \<times> nat"
  outputs :: "ustring list"
  deliver_to_notion_outcome :: notion_outcome
  deliver_to_markdown_outcome :: markdown_outcome
  update_outcome :: update_outcome

definition initial_stats :: stats where
  "initial_stats = \<lparr>raw_collected = 0, after_normalize = 0, after_dedup = 0,
                     analyzed_success = 0, analyzed_failed = 0, delivered = 0\<rparr>"

text \<open>\<open>Pipeline._deliver_to_notion\<close> and \<open>Pipeline._deliver_to_markdown\<close>: the
  exception leaving the function, if any, and the counters.\<close>

definition deliver_to_notion :: "world \<Rightarrow> stats \<Rightarrow> raised_exc option \<times> stats" where
  "deliver_to_notion w st =
     (case deliver_to_notion_outcome w of
        NotionDelivered \<Rightarrow> (None, st\<lparr>delivered := delivered st + 1\<rparr>)
      | NotionFailed \<Rightarrow> (None, st)
      | NotionRaised e \<Rightarrow> (Some e, st))"

definition deliver_to_markdown :: "world \<Rightarrow> stats \<Rightarrow> raised_exc option \<times> stats" where
  "deliver_to_markdown w st =
     (case deliver_to_markdown_outcome w of
        MarkdownDelivered \<Rightarrow> (None, st\<lparr>delivered := delivered st + 1\<rparr>)
      | MarkdownFailed \<Rightarrow> (None, st)
      | MarkdownInterrupted \<Rightarrow> (Some Interrupt, st))"

text \<open>\<open>Pipeline._update_pipeline_run\<close>: the exception leaving it, if any, and the
  update stored for the run record (\<open>None\<close> when nothing was written, so that the
  record keeps the status \<open>running\<close> it was created with).\<close>

definition update_pipeline_run ::
  "world \<Rightarrow> stats \<Rightarrow> ustring \<Rightarrow> ustring option
     \<Rightarrow> raised_exc option \<times> PipelineRunUpdate option" where
  "update_pipeline_run w st status_arg error_log_arg =
     (case update_outcome w of
        UpdateWritten \<Rightarrow>
          (None, Some \<lparr>status = Some status_arg, counters = st, error_log = error_log_arg\<rparr>)
      | UpdateFailed \<Rightarrow> (None, None)
      | UpdateInterrupted \<Rightarrow> (Some Interrupt, None))"

text \<open>
  The body of the \<open>try\<close> in \<open>Pipeline.run\<close> up to the last delivery: \<open>Inl\<close> the
  exception that left it, \<open>Inr\<close> the digest, with the counters as they stand then.
  The optional per-ticker cap (step 4.5) changes no counter and cannot raise; its
  effect is part of the outcome of \<open>_analyze_and_save\<close>.
\<close>

definition run_body :: "world \<Rightarrow> (raised_exc + Digest) \<times> stats" where
  "run_body w =
     (case load_watchlist_outcome w of
        Inl e \<Rightarrow> (Inl e, initial_stats)
      | Inr _ \<Rightarrow>
     (case collect_news_outcome w of
        Inl e \<Rightarrow> (Inl e, initial_stats)
      | Inr n_raw \<Rightarrow>
     (let st1 = initial_stats\<lparr>raw_collected := n_raw\<rparr> in
      case process_outcome w of
        Inl e \<Rightarrow> (Inl e, st1)
      | Inr n \<Rightarrow>
     (let st2 = st1\<lparr>after_normalize := n, after_dedup := n\<rparr>;
          a = analyze_and_save_outcome w;
          st3 = st2\<lparr>analyzed_success := succeeded a, analyzed_failed := failed a\<rparr> in
      case raised a of
        Some e \<Rightarrow> (Inl e, st3)
      | None \<Rightarrow>
     (case generate_ticker_summaries_outcome w of
        Inl e \<Rightarrow> (Inl e, st3)
      | Inr (n_summaries, n_fallback) \<Rightarrow>
     (let digest = \<lparr>total_collected = raw_collected st3,
                     total_after_dedup = after_dedup st3,
                     total_analyzed = analyzed_success st3,
                     total_failed = analyzed_failed st3,
                     items_count = digest_items a,
                     ticker_summaries_count = n_summaries\<rparr>;
          (escaped, st4) = (if ustr ''notion'' \<in> set (outputs w)
                            then deliver_to_notion w st3 else (None, st3)) in
      case escaped of
        Some e \<Rightarrow> (Inl e, st4)
      | None \<Rightarrow>
     (let (escaped, st5) = (if ustr ''markdown'' \<in> set (outputs w)
                            then deliver_to_markdown w st4 else (None, st4)) in
      case escaped of
        Some e \<Rightarrow> (Inl e, st5)
      | None \<Rightarrow> (Inr digest, st5))))))))"

text \<open>
  \<open>Pipeline.run\<close>: what it returns (\<open>Inl\<close> the exception that leaves it), the final
  counters, and the update stored for the run record. The call
  \<open>_update_pipeline_run(run_id, "success")\<close> is the last statement of the \<open>try\<close> that
  can raise. The handler is \<open>except Exception\<close>: it writes \<open>failed\<close> with \<open>str(e)\<close> and
  re-raises. An \<open>Interrupt\<close> passes it, and nothing is written.
\<close>

record run_result =
  returned :: "raised_exc + Digest"
  final_stats :: stats
  recorded :: "PipelineRunUpdate option"

definition run :: "world \<Rightarrow> run_result" where
  "run w =
     (case run_body w of
        (Inr digest, st) \<Rightarrow>
          (case update_pipeline_run w st (ustr ''success'') None of
             (None, stored) \<Rightarrow> \<lparr>returned = Inr digest, final_stats = st, recorded = stored\<rparr>
           | (Some e, stored) \<Rightarrow> \<lparr>returned = Inl e, final_stats = st, recorded = stored\<rparr>)
      | (Inl (Failure m), st) \<Rightarrow>
          (case update_pipeline_run w st (ustr ''failed'') (Some m) of
             (None, stored) \<Rightarrow>
               \<lparr>returned = Inl (Failure m), final_stats = st, recorded = stored\<rparr>
           | (Some e, stored) \<Rightarrow> \<lparr>returned = Inl e, final_stats = st, recorded = stored\<rparr>)
      | (Inl Interrupt, st) \<Rightarrow>
          \<lparr>returned = Inl Interrupt, final_stats = st, recorded = None\<rparr>)"





text \<open>A run in which one item's analysis failed and the only enabled channel, the
  Markdown file, failed too; every stage returned.\<close>

definition degraded_world :: world where
  "degraded_world =
     \<lparr>load_watchlist_outcome = Inr (),
      collect_news_outcome = Inr 4,
      process_outcome = Inr 4,
      analyze_and_save_outcome = \<lparr>succeeded = 3, failed = 1, digest_items = 4, raised = None\<rparr>,
      generate_ticker_summaries_outcome = Inr (2, 1),
      outputs = [ustr ''markdown''],
      deliver_to_notion_outcome = NotionFailed,
      deliver_to_markdown_outcome = MarkdownFailed,
      update_outcome = UpdateWritten\<rparr>"


definition cancelled_world :: world where
  "cancelled_world = degraded_world\<lparr>load_watchlist_outcome := Inl Interrupt\<rparr>"


section \<open>urllib.parse, as \<open>canonicalize_url\<close> uses it\<close>

text \<open>
  The functions of \<open>urllib.parse\<close> (CPython 3.11) that \<open>canonicalize_url\<close> calls, for
  \<open>str\<close> arguments and with the keyword arguments the caller passes.
\<close>

record ParseResult =
  scheme :: ustring
  netloc :: ustring
  path :: ustring
  params :: ustring
  query :: ustring
  fragment :: ustring

definition scheme_chars :: "nat \<Rightarrow> bool" where
  "scheme_chars c \<longleftrightarrow>
     ascii_lower_letter c \<or> ascii_upper_letter c \<or> ascii_digit c \<or> c \<in> set (ustr ''+-.'')"

definition uses_netloc :: "ustring list" where
  "uses_netloc = [] # map ustr
     [''ftp'', ''http'', ''gopher'', ''nntp'', ''telnet'', ''imap'', ''wais'', ''file'',
      ''mms'', ''https'', ''shttp'', ''snews'', ''prospero'', ''rtsp'', ''rtsps'', ''rtspu'',
      ''rsync'', ''svn'', ''svn+ssh'', ''sftp'', ''nfs'', ''git'', ''git+ssh'', ''ws'', ''wss'']"

definition uses_params :: "ustring list" where
  "uses_params = [] # map ustr
     [''ftp'', ''hdl'', ''prospero'', ''http'', ''imap'', ''https'', ''shttp'', ''rtsp'',
      ''rtsps'', ''rtspu'', ''sip'', ''sips'', ''mms'', ''sftp'', ''tel'']"

text \<open>The scheme test of \<open>urlsplit\<close>: the text before the first colon is a scheme when
  it is not empty, starts with an ASCII letter and consists of scheme characters.\<close>

definition split_scheme :: "ustring \<Rightarrow> ustring \<times> ustring" where
  "split_scheme url =
     (let pre = takeWhile (\<lambda>c. c \<noteq> 58) url in
      if 58 \<in> set url \<and> pre \<noteq> []
         \<and> (ascii_lower_letter (hd url) \<or> ascii_upper_letter (hd url))
         \<and> list_all scheme_chars pre
      then (map ascii_lower pre, drop (length pre + 1) url)
      else ([], url))"

text \<open>\<open>_splitnetloc(url, 2)\<close>: the text after the leading \<open>//\<close> up to the first of
  \<open>/\<close>, \<open>?\<close> and \<open>#\<close>, and the rest.\<close>

definition netloc_delim :: "nat \<Rightarrow> bool" where
  "netloc_delim c \<longleftrightarrow> c = 47 \<or> c = 63 \<or> c = 35"

definition splitnetloc :: "ustring \<Rightarrow> ustring \<times> ustring" where
  "splitnetloc url =
     (takeWhile (\<lambda>c. \<not> netloc_delim c) (drop 2 url),
      dropWhile (\<lambda>c. \<not> netloc_delim c) (drop 2 url))"

text \<open>\<open>_checknetloc\<close> returns without raising.\<close>

definition checknetloc :: "pylib \<Rightarrow> ustring \<Rightarrow> bool" where
  "checknetloc L nl \<longleftrightarrow>
     nl = [] \<or> list_all is_ascii nl
     \<or> (let n = filter (\<lambda>c. c \<notin> set (ustr ''@:#?'')) nl;
             netloc2 = py_nfkc L n
         in n = netloc2 \<or> \<not> (\<exists>c \<in> set (ustr ''/?#@:''). c \<in> set netloc2))"

text \<open>\<open>netloc.partition('[')[2].partition(']')[0]\<close>.\<close>

definition bracketed_host :: "ustring \<Rightarrow> ustring" where
  "bracketed_host nl = fst (partition_at 93 (snd (partition_at 91 nl)))"

text \<open>\<open>urlsplit(url)\<close>; \<open>Inl ValueError\<close> when it raises. The field \<open>params\<close> of the
  result is filled by \<open>urlparse\<close>.\<close>

definition urlsplit :: "pylib \<Rightarrow> ustring \<Rightarrow> exn + ParseResult" where
  "urlsplit L url0 =
     (let url1 = dropWhile (\<lambda>c. c \<le> 32) url0;
          url2 = filter (\<lambda>c. c \<noteq> 9 \<and> c \<noteq> 13 \<and> c \<noteq> 10) url1;
          (scheme_v, url3) = split_scheme url2;
          has_netloc = (take 2 url3 = ustr ''//'');
          (netloc_v, url4) = (if has_netloc then splitnetloc url3 else ([], url3))
      in if has_netloc \<and> ((91 \<in> set netloc_v \<and> 93 \<notin> set netloc_v)
                          \<or> (93 \<in> set netloc_v \<and> 91 \<notin> set netloc_v))
         then Inl ValueError
         else if has_netloc \<and> 91 \<in> set netloc_v \<and> 93 \<in> set netloc_v
                 \<and> \<not> check_bracketed_host L (bracketed_host netloc_v)
         then Inl ValueError
         else
           (let (url5, fragment_v) = (if 35 \<in> set url4 then partition_at 35 url4 else (url4, []));
                (url6, query_v) = (if 63 \<in> set url5 then partition_at 63 url5 else (url5, []))
            in if \<not> checknetloc L netloc_v then Inl ValueError
               else Inr \<lparr>scheme = scheme_v, netloc = netloc_v, path = url6, params = [],
                         query = query_v, fragment = fragment_v\<rparr>))"

text \<open>\<open>_splitparams(url)\<close>, called when \<open>;\<close> occurs in \<open>url\<close>: the parameters start
  at the first \<open>;\<close> of the last path segment.\<close>

definition splitparams :: "ustring \<Rightarrow> ustring \<times> ustring" where
  "splitparams url =
     (if 47 \<in> set url
      then (let last_segment = rev (takeWhile (\<lambda>c. c \<noteq> 47) (rev url));
                before = take (length url - length last_segment) url
            in if 59 \<notin> set last_segment then (url, [])
               else (before @ fst (partition_at 59 last_segment),
                     snd (partition_at 59 last_segment)))
      else partition_at 59 url)"

definition urlparse :: "pylib \<Rightarrow> ustring \<Rightarrow> exn + ParseResult" where
  "urlparse L url =
     (case urlsplit L url of
        Inl e \<Rightarrow> Inl e
      | Inr r \<Rightarrow>
          if scheme r \<in> set uses_params \<and> 59 \<in> set (path r)
          then (let (url', params_v) = splitparams (path r)
                in Inr (r\<lparr>path := url', params := params_v\<rparr>))
          else Inr r)"

text \<open>\<open>urlunsplit\<close> and \<open>urlunparse\<close>.\<close>

definition urlunsplit :: "ustring \<Rightarrow> ustring \<Rightarrow> ustring \<Rightarrow> ustring \<Rightarrow> ustring \<Rightarrow> ustring" where
  "urlunsplit scheme_v netloc_v url query_v fragment_v =
     (let url1 = (if netloc_v \<noteq> [] \<or> (scheme_v \<noteq> [] \<and> scheme_v \<in> set uses_netloc)
                     \<or> take 2 url = ustr ''//''
                  then ustr ''//'' @ netloc_v
                       @ (if url \<noteq> [] \<and> take 1 url \<noteq> ustr ''/'' then ustr ''/'' @ url else url)
                  else url);
          url2 = (if scheme_v \<noteq> [] then scheme_v @ ustr '':'' @ url1 else url1);
          url3 = (if query_v \<noteq> [] then url2 @ ustr ''?'' @ query_v else url2)
      in if fragment_v \<noteq> [] then url3 @ ustr ''#'' @ fragment_v else url3)"

definition urlunparse :: "ParseResult \<Rightarrow> ustring" where
  "urlunparse r =
     urlunsplit (scheme r) (netloc r)
       (if params r \<noteq> [] then path r @ ustr '';'' @ params r else path r)
       (query r) (fragment r)"

subsection \<open>Percent-encoding\<close>

text \<open>\<open>s.encode('utf-8')\<close>; \<open>None\<close> when it raises \<open>UnicodeEncodeError\<close> (a
  surrogate code point).\<close>

definition utf8_encode_char :: "nat \<Rightarrow> nat list option" where
  "utf8_encode_char c =
     (if c < 128 then Some [c]
      else if c < 2048 then Some [192 + c div 64, 128 + c mod 64]
      else if 55296 \<le> c \<and> c \<le> 57343 then None
      else if c < 65536 then
        Some [224 + c div 4096, 128 + (c div 64) mod 64, 128 + c mod 64]
      else if c < 1114112 then
        Some [240 + c div 262144, 128 + (c div 4096) mod 64, 128 + (c div 64) mod 64,
              128 + c mod 64]
      else None)"

fun utf8_encode :: "ustring \<Rightarrow> nat list option" where
  "utf8_encode [] = Some []"
| "utf8_encode (c # cs) =
     (case utf8_encode_char c of
        None \<Rightarrow> None
      | Some bs \<Rightarrow> (case utf8_encode cs of None \<Rightarrow> None | Some rest \<Rightarrow> Some (bs @ rest)))"

text \<open>Decoding of well-formed UTF-8; \<open>None\<close> for any other byte sequence.\<close>

definition continuation :: "nat \<Rightarrow> bool" where
  "continuation b \<longleftrightarrow> 128 \<le> b \<and> b < 192"

fun utf8_decode_strict :: "nat list \<Rightarrow> ustring option" where
  "utf8_decode_strict [] = Some []"
| "utf8_decode_strict (b0 # bs) =
     (if b0 < 128 then map_option ((#) b0) (utf8_decode_strict bs)
      else if 194 \<le> b0 \<and> b0 \<le> 223 then
        (case bs of
           b1 # r \<Rightarrow>
             if continuation b1
             then map_option ((#) ((b0 - 192) * 64 + (b1 - 128))) (utf8_decode_strict r)
             else None
         | _ \<Rightarrow> None)
      else if 224 \<le> b0 \<and> b0 \<le> 239 then
        (case bs of
           b1 # b2 # r \<Rightarrow>
             (let c = (b0 - 224) * 4096 + (b1 - 128) * 64 + (b2 - 128)
              in if continuation b1 \<and> continuation b2 \<and> 2048 \<le> c
                    \<and> \<not> (55296 \<le> c \<and> c \<le> 57343)
                 then map_option ((#) c) (utf8_decode_strict r)
                 else None)
         | _ \<Rightarrow> None)
      else if 240 \<le> b0 \<and> b0 \<le> 244 then
        (case bs of
           b1 # b2 # b3 # r \<Rightarrow>
             (let c = (b0 - 240) * 262144 + (b1 - 128) * 4096 + (b2 - 128) * 64 + (b3 - 128)
              in if continuation b1 \<and> continuation b2 \<and> continuation b3
                    \<and> 65536 \<le> c \<and> c < 1114112
                 then map_option ((#) c) (utf8_decode_strict r)
                 else None)
         | _ \<Rightarrow> None)
      else None)"

text \<open>\<open>bs.decode('utf-8', 'replace')\<close>.\<close>

definition utf8_decode_replace :: "pylib \<Rightarrow> nat list \<Rightarrow> ustring" where
  "utf8_decode_replace L bs =
     (case utf8_decode_strict bs of Some s \<Rightarrow> s | None \<Rightarrow> utf8_decode_invalid L bs)"

definition is_hexdig :: "nat \<Rightarrow> bool" where
  "is_hexdig c \<longleftrightarrow> ascii_digit c \<or> (65 \<le> c \<and> c \<le> 70) \<or> (97 \<le> c \<and> c \<le> 102)"

definition hexval :: "nat \<Rightarrow> nat" where
  "hexval c = (if ascii_digit c then c - 48 else if c \<le> 70 then c - 55 else c - 87)"

text \<open>\<open>unquote_to_bytes\<close> on ASCII text: \<open>%\<close> followed by two hexadecimal digits is
  the byte they denote; every other character, a \<open>%\<close> included, stands for itself.\<close>

fun unquote_to_bytes :: "nat list \<Rightarrow> nat list" where
  "unquote_to_bytes (p # a # b # rest) =
     (if p = 37 \<and> is_hexdig a \<and> is_hexdig b
      then (16 * hexval a + hexval b) # unquote_to_bytes rest
      else p # unquote_to_bytes (a # b # rest))"
| "unquote_to_bytes (p # rest) = p # unquote_to_bytes rest"
| "unquote_to_bytes [] = []"

text \<open>
  \<open>unquote\<close>: the maximal runs of ASCII characters are percent-decoded to bytes and
  decoded as UTF-8; the characters above 127 stay. The second argument is the ASCII
  run read so far.
\<close>

fun unquote_runs :: "pylib \<Rightarrow> ustring \<Rightarrow> ustring \<Rightarrow> ustring" where
  "unquote_runs L seen [] = utf8_decode_replace L (unquote_to_bytes seen)"
| "unquote_runs L seen (c # cs) =
     (if is_ascii c then unquote_runs L (seen @ [c]) cs
      else utf8_decode_replace L (unquote_to_bytes seen) @ c # unquote_runs L [] cs)"

definition unquote :: "pylib \<Rightarrow> ustring \<Rightarrow> ustring" where
  "unquote L s = (if 37 \<notin> set s then s else unquote_runs L [] s)"

definition unquote_plus :: "pylib \<Rightarrow> ustring \<Rightarrow> ustring" where
  "unquote_plus L s = unquote L (map (\<lambda>c. if c = 43 then 32 else c) s)"

text \<open>\<open>quote_plus(s)\<close> with \<open>safe=''\<close>: letters, digits and \<open>_.-~\<close> stay, a space
  becomes \<open>+\<close>, every other byte of the UTF-8 encoding becomes \<open>%XX\<close> in upper case.\<close>

definition always_safe :: "nat \<Rightarrow> bool" where
  "always_safe b \<longleftrightarrow>
     ascii_upper_letter b \<or> ascii_lower_letter b \<or> ascii_digit b \<or> b \<in> set (ustr ''_.-~'')"

definition hexdigit_upper :: "nat \<Rightarrow> nat" where
  "hexdigit_upper n = (if n < 10 then 48 + n else 55 + n)"

definition quote_byte :: "nat \<Rightarrow> ustring" where
  "quote_byte b =
     (if always_safe b then [b]
      else if b = 32 then [43]
      else [37, hexdigit_upper (b div 16), hexdigit_upper (b mod 16)])"

definition quote_plus :: "ustring \<Rightarrow> ustring option" where
  "quote_plus s = map_option (\<lambda>bs. concat (map quote_byte bs)) (utf8_encode s)"

subsection \<open>Query strings\<close>

text \<open>\<open>parse_qsl(qs, keep_blank_values=False)\<close>: the fields between \<open>&\<close>, each split
  at its first \<open>=\<close>; empty fields and fields with an empty value are dropped.\<close>

definition parse_qsl :: "pylib \<Rightarrow> ustring \<Rightarrow> (ustring \<times> ustring) list" where
  "parse_qsl L qs =
     (if qs = [] then []
      else concat (map (\<lambda>name_value.
             if name_value = [] then []
             else (let (name, val) = partition_at 61 name_value
                   in if val \<noteq> [] then [(unquote_plus L name, unquote_plus L val)] else []))
           (split_on 38 [] qs)))"

text \<open>A \<open>dict\<close> from names to lists of values, as the list of its items in insertion
  order. \<open>dict_append\<close> is the loop body of \<open>parse_qs\<close>.\<close>

fun dict_append ::
  "(ustring \<times> ustring list) list \<Rightarrow> ustring \<Rightarrow> ustring \<Rightarrow> (ustring \<times> ustring list) list" where
  "dict_append [] name val = [(name, [val])]"
| "dict_append ((k, vs) # d) name val =
     (if k = name then (k, vs @ [val]) # d else (k, vs) # dict_append d name val)"

definition parse_qs :: "pylib \<Rightarrow> ustring \<Rightarrow> (ustring \<times> ustring list) list" where
  "parse_qs L qs = foldl (\<lambda>d (name, val). dict_append d name val) [] (parse_qsl L qs)"

text \<open>\<open>urlencode(d, doseq=True)\<close> for a \<open>dict\<close> of lists of strings.\<close>

definition urlencode :: "(ustring \<times> ustring list) list \<Rightarrow> exn + ustring" where
  "urlencode d =
     (let l = concat (map (\<lambda>(k, vs). map (\<lambda>elt.
                 case (quote_plus k, quote_plus elt) of
                   (Some k', Some elt') \<Rightarrow> Some (k' @ ustr ''='' @ elt')
                 | _ \<Rightarrow> None) vs) d)
      in if None \<in> set l then Inl UnicodeEncodeError
         else Inr (join (ustr ''&'') (map the l)))"

section \<open>app/collectors/base.py and app/utils/deduplicator.py\<close>

text \<open>\<open>RawNewsData\<close>, without the fields no modelled function reads (\<open>raw_payload\<close>,
  \<open>author\<close>, \<open>category\<close>, \<open>image_url\<close>).\<close>

record RawNewsData =
  source :: ustring
  source_type :: ustring
  external_id :: "ustring option"
  url :: ustring
  title :: ustring
  summary :: "ustring option"
  published_at :: "datetime option"
  tickers :: "ustring list"

text \<open>\<open>DedupClusterInfo\<close>; its field \<open>method\<close> is named \<open>method_c\<close> here.\<close>

record DedupClusterInfo =
  representative_url :: ustring
  member_urls :: "ustring list"
  method_c :: ustring
  similarity_score :: "real option"

record DedupResult =
  kept_items :: "RawNewsData list"
  removed_count :: int
  clusters :: "DedupClusterInfo list"

definition TRACKING_PARAMS :: "ustring list" where
  "TRACKING_PARAMS = map ustr
     [''utm_source'', ''utm_medium'', ''utm_campaign'', ''utm_term'', ''utm_content'',
      ''ref'', ''source'', ''fbclid'', ''gclid'', ''msclkid'', ''mc_cid'', ''mc_eid'',
      ''affiliate'', ''partner'', ''tracking'', ''_ga'', ''ncid'', ''sr_share'']"

text \<open>The body of the \<open>try\<close> in \<open>Deduplicator.canonicalize_url\<close>.\<close>

definition canonicalize_try :: "pylib \<Rightarrow> ustring \<Rightarrow> exn + ustring" where
  "canonicalize_try L u =
     (case urlparse L u of
        Inl e \<Rightarrow> Inl e
      | Inr parsed \<Rightarrow>
          (case (if query parsed \<noteq> []
                 then (let params_d = parse_qs L (query parsed);
                           filtered_params =
                             filter (\<lambda>(k, v). py_lower L k \<notin> set TRACKING_PARAMS) params_d
                       in urlencode filtered_params)
                 else Inr []) of
             Inl e \<Rightarrow> Inl e
           | Inr new_query \<Rightarrow>
               Inr (urlunparse
                      \<lparr>scheme = py_lower L (scheme parsed),
                       netloc = py_lower L (netloc parsed),
                       path = rstrip_char 47 (path parsed),
                       params = params parsed,
                       query = new_query,
                       fragment = []\<rparr>)))"

text \<open>\<open>Deduplicator.canonicalize_url\<close>: the empty URL gives the empty string, and a
  URL on which the body raises is returned unchanged.\<close>

definition canonicalize_url :: "pylib \<Rightarrow> ustring \<Rightarrow> ustring" where
  "canonicalize_url L u =
     (if u = [] then []
      else case canonicalize_try L u of Inl e \<Rightarrow> u | Inr canonical \<Rightarrow> canonical)"

text \<open>
  \<open>Deduplicator.normalize_title\<close>. The pattern \<open>[^\w\s]\<close> of a \<open>str\<close> regular
  expression matches a character that is neither a word character (alphanumeric in
  the sense of \<open>str.isalnum\<close>, or the underscore) nor whitespace.
\<close>

definition is_word :: "pylib \<Rightarrow> nat \<Rightarrow> bool" where
  "is_word L c \<longleftrightarrow> py_isalnum L c \<or> c = 95"

definition normalize_title :: "pylib \<Rightarrow> ustring \<Rightarrow> ustring" where
  "normalize_title L t =
     (if t = [] then []
      else (let t1 = py_nfkc L t;
                t2 = py_lower L t1;
                t3 = map (\<lambda>c. if is_word L c \<or> py_isspace L c then c else 32) t2
            in join (ustr '' '') (py_split L t3)))"

text \<open>\<open>Deduplicator.compute_content_hash\<close>.\<close>

definition compute_content_hash :: "pylib \<Rightarrow> RawNewsData \<Rightarrow> ustring" where
  "compute_content_hash L item =
     (let title_norm = normalize_title L (title item);
          date_str = (case published_at item of
                        None \<Rightarrow> []
                      | Some d \<Rightarrow> strftime L d (ustr ''%Y-%m-%d''));
          content = title_norm @ ustr ''|'' @ date_str @ ustr ''|'' @ source item
      in sha256_hexdigest L content)"

text \<open>
  \<open>_url_dedup\<close> and \<open>_hash_dedup\<close> are the same loop over two dictionaries, with a
  different key: \<open>seen\<close> maps a key to the first item that has it, \<open>duplicates\<close> maps
  a key that occurred again to the URL of that first item followed by the URLs of the
  later ones. Both are kept as lists of items in insertion order.
\<close>

fun key_dedup_loop ::
  "(RawNewsData \<Rightarrow> ustring) \<Rightarrow> RawNewsData list \<Rightarrow> (ustring \<times> RawNewsData) list
     \<Rightarrow> (ustring \<times> ustring list) list
     \<Rightarrow> (ustring \<times> RawNewsData) list \<times> (ustring \<times> ustring list) list" where
  "key_dedup_loop key [] seen duplicates = (seen, duplicates)"
| "key_dedup_loop key (item # items) seen duplicates =
     (let k = key item in
      case map_of seen k of
        Some first_item \<Rightarrow>
          (let duplicates1 = (if map_of duplicates k = None
                              then duplicates @ [(k, [url first_item])] else duplicates);
               duplicates2 = dict_append duplicates1 k (url item)
           in key_dedup_loop key items seen duplicates2)
      | None \<Rightarrow> key_dedup_loop key items (seen @ [(k, item)]) duplicates)"

definition key_dedup ::
  "(RawNewsData \<Rightarrow> ustring) \<Rightarrow> ustring \<Rightarrow> RawNewsData list
     \<Rightarrow> RawNewsData list \<times> DedupClusterInfo list" where
  "key_dedup key method_name items =
     (let (seen, duplicates) = key_dedup_loop key items [] [];
          clusters_v = map (\<lambda>(k, urls).
                         \<lparr>representative_url = hd urls, member_urls = tl urls,
                          method_c = method_name, similarity_score = None\<rparr>) duplicates
      in (map snd seen, clusters_v))"

definition url_dedup :: "pylib \<Rightarrow> RawNewsData list \<Rightarrow> RawNewsData list \<times> DedupClusterInfo list" where
  "url_dedup L items = key_dedup (\<lambda>item. canonicalize_url L (url item)) (ustr ''url_exact'') items"

definition hash_dedup :: "pylib \<Rightarrow> RawNewsData list \<Rightarrow> RawNewsData list \<times> DedupClusterInfo list" where
  "hash_dedup L items = key_dedup (compute_content_hash L) (ustr ''hash_match'') items"

text \<open>
  The similarity stage. \<open>_simhash_dedup\<close> and \<open>_simple_similarity_dedup\<close> run the
  same two nested loops over the positions of a list of entries, with a set
  \<open>removed\<close> of positions; they differ in the entries and in the similarity test.
  \<open>inner_step\<close> is the body of the inner loop at position \<open>j\<close>, for the outer
  position \<open>i\<close>; \<open>outer_step\<close> is the body of the outer loop at position \<open>i\<close>.
\<close>

definition inner_step ::
  "('e \<Rightarrow> 'e \<Rightarrow> bool) \<Rightarrow> ('e \<Rightarrow> RawNewsData) \<Rightarrow> 'e list \<Rightarrow> nat
     \<Rightarrow> ustring list \<times> nat set \<Rightarrow> nat \<Rightarrow> ustring list \<times> nat set" where
  "inner_step similar item_of entries i st j =
     (let (similar_items, removed) = st in
      if j \<in> removed then st
      else if similar (entries ! i) (entries ! j)
      then (similar_items @ [url (item_of (entries ! j))], insert j removed)
      else st)"

definition outer_step ::
  "('e \<Rightarrow> 'e \<Rightarrow> bool) \<Rightarrow> ('e \<Rightarrow> RawNewsData) \<Rightarrow> real \<Rightarrow> 'e list
     \<Rightarrow> RawNewsData list \<times> DedupClusterInfo list \<times> nat set \<Rightarrow> nat
     \<Rightarrow> RawNewsData list \<times> DedupClusterInfo list \<times> nat set" where
  "outer_step similar item_of threshold entries st i =
     (let (kept, clusters_v, removed) = st in
      if i \<in> removed then st
      else
        (let (similar_items, removed') =
               foldl (inner_step similar item_of entries i)
                 ([url (item_of (entries ! i))], removed) [i + 1 ..< length entries];
             kept' = kept @ [item_of (entries ! i)];
             clusters' =
               (if length similar_items > 1
                then clusters_v @ [\<lparr>representative_url = hd similar_items,
                                     member_urls = tl similar_items,
                                     method_c = ustr ''similarity'',
                                     similarity_score = Some threshold\<rparr>]
                else clusters_v)
         in (kept', clusters', removed')))"

definition similarity_loop ::
  "('e \<Rightarrow> 'e \<Rightarrow> bool) \<Rightarrow> ('e \<Rightarrow> RawNewsData) \<Rightarrow> real \<Rightarrow> 'e list
     \<Rightarrow> RawNewsData list \<times> DedupClusterInfo list" where
  "similarity_loop similar item_of threshold entries =
     (let (kept, clusters_v, removed) =
            foldl (outer_step similar item_of threshold entries) ([], [], {})
              [0 ..< length entries]
      in (kept, clusters_v))"

text \<open>The Hamming distance of two 64-bit fingerprints (\<open>Simhash.distance\<close>) and the
  similarity \<open>1 - distance / 64\<close>; the division by 64 is exact in floating point.\<close>

definition simhash_distance :: "64 word \<Rightarrow> 64 word \<Rightarrow> nat" where
  "simhash_distance h1 h2 = length (filter (\<lambda>n. bit (xor h1 h2) n) [0 ..< 64])"

definition simhash_similar :: "real \<Rightarrow> 64 word \<Rightarrow> 64 word \<Rightarrow> bool" where
  "simhash_similar threshold h1 h2 \<longleftrightarrow> 1 - real (simhash_distance h1 h2) / 64 \<ge> threshold"

text \<open>\<open>_simhash_dedup\<close>: only the items whose normalized title is not empty get a
  fingerprint and enter the loops.\<close>

definition simhash_dedup ::
  "pylib \<Rightarrow> real \<Rightarrow> RawNewsData list \<Rightarrow> RawNewsData list \<times> DedupClusterInfo list" where
  "simhash_dedup L threshold items =
     (let hashes = concat (map (\<lambda>item.
                      (let title_norm = normalize_title L (title item)
                       in if title_norm \<noteq> [] then [(item, simhash_value L title_norm)] else []))
                    items)
      in similarity_loop (\<lambda>(item_i, hash_i) (item_j, hash_j). simhash_similar threshold hash_i hash_j)
           fst threshold hashes)"

text \<open>\<open>_simple_similarity_dedup\<close>: the Jaccard similarity of the token sets of the
  normalized titles, 0 when one of them is empty. The quotient of the two small
  integers is compared as a real number.\<close>

definition jaccard_similar :: "real \<Rightarrow> ustring set \<Rightarrow> ustring set \<Rightarrow> bool" where
  "jaccard_similar threshold tokens_i tokens_j \<longleftrightarrow>
     (let similarity =
            (if tokens_i \<noteq> {} \<and> tokens_j \<noteq> {}
             then (let intersection = card (tokens_i \<inter> tokens_j);
                       union = card (tokens_i \<union> tokens_j)
                   in if union > 0 then real intersection / real union else 0)
             else 0)
      in similarity \<ge> threshold)"

definition simple_similarity_dedup ::
  "pylib \<Rightarrow> real \<Rightarrow> RawNewsData list \<Rightarrow> RawNewsData list \<times> DedupClusterInfo list" where
  "simple_similarity_dedup L threshold items =
     (let tokenized = map (\<lambda>item. (item, set (py_split L (normalize_title L (title item))))) items
      in similarity_loop (\<lambda>(item_i, tokens_i) (item_j, tokens_j).
                            jaccard_similar threshold tokens_i tokens_j)
           fst threshold tokenized)"

text \<open>\<open>_similarity_dedup\<close>; \<open>simhash_available\<close> is the module flag
  \<open>SIMHASH_AVAILABLE\<close>.\<close>

definition similarity_dedup ::
  "pylib \<Rightarrow> bool \<Rightarrow> real \<Rightarrow> RawNewsData list \<Rightarrow> RawNewsData list \<times> DedupClusterInfo list" where
  "similarity_dedup L simhash_available threshold items =
     (if length items \<le> 1 then (items, [])
      else if simhash_available then simhash_dedup L threshold items
      else simple_similarity_dedup L threshold items)"

text \<open>\<open>Deduplicator.deduplicate\<close>, for a deduplicator with the given
  \<open>similarity_threshold\<close>.\<close>

definition deduplicate ::
  "pylib \<Rightarrow> bool \<Rightarrow> real \<Rightarrow> RawNewsData list \<Rightarrow> DedupResult" where
  "deduplicate L simhash_available threshold items =
     (if items = [] then \<lparr>kept_items = [], removed_count = 0, clusters = []\<rparr>
      else
        (let original_count = length items;
             (items1, url_clusters) = url_dedup L items;
             (items2, hash_clusters) = hash_dedup L items1;
             (items3, sim_clusters) = similarity_dedup L simhash_available threshold items2
         in \<lparr>kept_items = items3,
             removed_count = int original_count - int (length items3),
             clusters = url_clusters @ hash_clusters @ sim_clusters\<rparr>))"

text \<open>
  Vocabulary for the claims about \<open>deduplicate\<close>. \<open>first_occurrences key ks items\<close>
  are the items whose key is not in \<open>ks\<close> and was not the key of an earlier item;
  \<open>items_similar\<close> is the similarity test the third stage applies to two items.
\<close>

fun first_occurrences :: "('a \<Rightarrow> 'k) \<Rightarrow> 'k list \<Rightarrow> 'a list \<Rightarrow> 'a list" where
  "first_occurrences key ks [] = []"
| "first_occurrences key ks (x # xs) =
     (if key x \<in> set ks then first_occurrences key ks xs
      else x # first_occurrences key (ks @ [key x]) xs)"

definition items_similar :: "pylib \<Rightarrow> bool \<Rightarrow> real \<Rightarrow> RawNewsData \<Rightarrow> RawNewsData \<Rightarrow> bool" where
  "items_similar L simhash_available threshold x y =
     (if simhash_available
      then simhash_similar threshold (simhash_value L (normalize_title L (title x)))
             (simhash_value L (normalize_title L (title y)))
      else jaccard_similar threshold (set (py_split L (normalize_title L (title x))))
             (set (py_split L (normalize_title L (title y)))))"

text \<open>
  The invariant of the outer loop of the similarity stage after the positions below
  \<open>k\<close>: the kept items are those at the positions not removed; every later entry
  similar to a kept one is removed; every cluster lists the URLs of entries at
  increasing positions.
\<close>

definition similarity_inv ::
  "('e \<Rightarrow> 'e \<Rightarrow> bool) \<Rightarrow> ('e \<Rightarrow> RawNewsData) \<Rightarrow> 'e list \<Rightarrow> nat
     \<Rightarrow> RawNewsData list \<times> DedupClusterInfo list \<times> nat set \<Rightarrow> bool" where
  "similarity_inv similar item_of entries k st =
     (case st of (kept, cl, R) \<Rightarrow>
        kept = map (\<lambda>i. item_of (entries ! i)) (filter (\<lambda>i. i \<notin> R) [0 ..< k])
        \<and> (\<forall>i<k. i \<notin> R \<longrightarrow>
             (\<forall>j. i < j \<and> j < length entries \<and> similar (entries ! i) (entries ! j) \<longrightarrow> j \<in> R))
        \<and> (\<forall>c \<in> set cl. method_c c = ustr ''similarity''
             \<and> (\<exists>js. subseq js [0 ..< length entries]
                   \<and> representative_url c # member_urls c
                       = map (\<lambda>j. url (item_of (entries ! j))) js)))"

section \<open>app/core/normalizer.py\<close>

text \<open>\<open>RawItemCreate\<close> and \<open>NewsItemCreate\<close>; the suffix of a field name tells the
  record apart from \<open>RawNewsData\<close>, whose fields have the same names in the source.\<close>

record RawItemCreate =
  source_r :: ustring
  source_type_r :: ustring
  external_id_r :: "ustring option"
  url_r :: ustring

record NewsItemCreate =
  canonical_url :: ustring
  title_n :: ustring
  title_normalized :: "ustring option"
  content_hash :: "ustring option"
  summary_n :: "ustring option"
  published_at_n :: datetime
  source_n :: ustring
  source_type_n :: ustring
  credibility :: ustring
  tickers_n :: "ustring list option"
  raw_item_id :: "ustring option"

definition CREDIBILITY_MAP :: "(ustring \<times> ustring) list" where
  "CREDIBILITY_MAP =
     [(ustr ''sec'', ustr ''high''),
      (ustr ''finnhub'', ustr ''medium''),
      (ustr ''polygon'', ustr ''medium''),
      (ustr ''default'', ustr ''low'')]"

text \<open>\<open>Normalizer._determine_credibility\<close>; \<open>CREDIBILITY_MAP["default"]\<close> is
  \<open>low\<close>.\<close>

definition determine_credibility :: "ustring \<Rightarrow> ustring \<Rightarrow> ustring" where
  "determine_credibility source_v source_type_v =
     (if source_type_v = ustr ''filing'' then ustr ''high''
      else case map_of CREDIBILITY_MAP source_v of
             Some c \<Rightarrow> c
           | None \<Rightarrow> the (map_of CREDIBILITY_MAP (ustr ''default'')))"

text \<open>\<open>Normalizer._normalize_item\<close>; \<open>now\<close> is \<open>datetime.utcnow()\<close>. The fields are
  typed, so the constructors of the two pydantic models cannot reject them.\<close>

definition normalize_item :: "pylib \<Rightarrow> datetime \<Rightarrow> RawNewsData \<Rightarrow> RawItemCreate \<times> NewsItemCreate" where
  "normalize_item L now raw =
     (let raw_create = \<lparr>source_r = source raw, source_type_r = source_type raw,
                        external_id_r = external_id raw, url_r = url raw\<rparr>;
          canonical_url_v = canonicalize_url L (url raw);
          title_normalized_v = normalize_title L (title raw);
          content_hash_v = compute_content_hash L raw;
          credibility_v = determine_credibility (source raw) (source_type raw);
          published_at_v = (case published_at raw of Some d \<Rightarrow> d | None \<Rightarrow> now);
          news_create = \<lparr>canonical_url = canonical_url_v,
                         title_n = title raw,
                         title_normalized = Some title_normalized_v,
                         content_hash = Some content_hash_v,
                         summary_n = summary raw,
                         published_at_n = published_at_v,
                         source_n = source raw,
                         source_type_n = source_type raw,
                         credibility = credibility_v,
                         tickers_n = Some (tickers raw),
                         raw_item_id = None\<rparr>
      in (raw_create, news_create))"

text \<open>\<open>Normalizer.normalize\<close>: every item is normalized; no item is skipped, because
  \<open>_normalize_item\<close> does not raise in the model.\<close>

definition normalize_all :: "pylib \<Rightarrow> datetime \<Rightarrow> RawNewsData list \<Rightarrow> (RawItemCreate \<times> NewsItemCreate) list" where
  "normalize_all L now raw_items = map (normalize_item L now) raw_items"

section \<open>app/models/schemas.py: \<open>AIAnalysisOutput\<close>\<close>

text \<open>
  The model that an analysis must validate against. The five \<open>Literal\<close> fields hold
  one of the listed strings; \<open>summary_a\<close> is the field \<open>summary\<close>.
\<close>

record AIAnalysisOutput =
  event_type :: ustring
  impact_direction :: ustring
  impact_horizon :: ustring
  thesis_relation :: ustring
  confidence :: ustring
  confidence_reason :: ustring
  summary_a :: ustring
  key_facts :: "ustring list"
  watch_next :: ustring

definition EVENT_TYPES :: "ustring list" where
  "EVENT_TYPES = map ustr [''earnings'', ''guidance'', ''regulatory'', ''contract'',
                           ''product'', ''accident'', ''macro'', ''rumor'', ''other'']"

definition IMPACT_DIRECTIONS :: "ustring list" where
  "IMPACT_DIRECTIONS = map ustr [''bullish'', ''bearish'', ''neutral'']"

definition IMPACT_HORIZONS :: "ustring list" where
  "IMPACT_HORIZONS = map ustr [''short'', ''medium'', ''long'']"

definition THESIS_RELATIONS :: "ustring list" where
  "THESIS_RELATIONS = map ustr [''supports'', ''weakens'', ''unrelated'']"

definition CONFIDENCES :: "ustring list" where
  "CONFIDENCES = map ustr [''high'', ''medium'', ''low'']"

text \<open>The truth value of a decoded JSON value, and \<open>str(v)\<close>.\<close>

fun py_truthy :: "json \<Rightarrow> bool" where
  "py_truthy JNull = False"
| "py_truthy (JBool b) = b"
| "py_truthy (JInt i) = (i \<noteq> 0)"
| "py_truthy (JFloat r) = (r \<noteq> 0)"
| "py_truthy (JString s) = (s \<noteq> [])"
| "py_truthy (JArray xs) = (xs \<noteq> [])"
| "py_truthy (JObject kvs) = (kvs \<noteq> [])"

definition py_str :: "pylib \<Rightarrow> json \<Rightarrow> ustring" where
  "py_str L v = (case v of JString s \<Rightarrow> s | _ \<Rightarrow> json_str L v)"

text \<open>
  The \<open>mode='before'\<close> validators. \<open>validate_summary\<close>,
  \<open>validate_confidence_reason\<close> and \<open>validate_watch_next\<close> are
  \<open>str(v)[:n] if v else ""\<close>.
\<close>

definition validate_summary :: "pylib \<Rightarrow> json \<Rightarrow> ustring" where
  "validate_summary L v = (if py_truthy v then take 100 (py_str L v) else [])"

definition validate_confidence_reason :: "pylib \<Rightarrow> json \<Rightarrow> ustring" where
  "validate_confidence_reason L v = (if py_truthy v then take 100 (py_str L v) else [])"

definition validate_watch_next :: "pylib \<Rightarrow> json \<Rightarrow> ustring" where
  "validate_watch_next L v = (if py_truthy v then take 50 (py_str L v) else [])"

text \<open>
  \<open>v[:3]\<close> as a list of values: the first three entries of a list, the first three
  characters of a string (each a string of length one when iterated). A number, a
  boolean or a dict cannot be sliced: \<open>TypeError\<close> (for a dict Python 3.12 raises
  \<open>KeyError\<close> instead; neither is a \<open>ValueError\<close>).
\<close>

fun slice3 :: "json \<Rightarrow> exn + json list" where
  "slice3 (JArray xs) = Inr (take 3 xs)"
| "slice3 (JString s) = Inr (map (\<lambda>c. JString [c]) (take 3 s))"
| "slice3 v = Inl TypeError"

text \<open>\<open>validate_key_facts\<close>:
  \<open>[] if v is None else [str(f)[:200] for f in v[:3]]\<close>.\<close>

definition validate_key_facts :: "pylib \<Rightarrow> json \<Rightarrow> exn + ustring list" where
  "validate_key_facts L v =
     (if v = JNull then Inr []
      else (case slice3 v of
              Inl e \<Rightarrow> Inl e
            | Inr fs \<Rightarrow> Inr (map (\<lambda>f. take 200 (py_str L f)) fs)))"

text \<open>A \<open>Literal\<close> field is valid when the key is present and its value is one of
  the listed strings.\<close>

definition literal_ok :: "ustring list \<Rightarrow> json option \<Rightarrow> bool" where
  "literal_ok allowed v = (case v of Some (JString s) \<Rightarrow> s \<in> set allowed | _ \<Rightarrow> False)"

text \<open>
  A \<open>str\<close> may hold surrogate code points (\<open>json.loads\<close> yields one for an escape
  such as the one of \<open>U+D83D\<close> that has no partner). pydantic-core reads the value of a \<open>str\<close>
  field that has a constraint, here \<open>max_length\<close>, as UTF-8 and reports the error
  \<open>string_unicode\<close> when the string holds a surrogate. A \<open>str\<close> without constraint,
  as the entries of \<open>key_facts\<close>, is taken as it is.
\<close>

definition is_surrogate :: "nat \<Rightarrow> bool" where
  "is_surrogate c \<longleftrightarrow> 55296 \<le> c \<and> c \<le> 57343"

definition str_is_unicode :: "ustring \<Rightarrow> bool" where
  "str_is_unicode s \<longleftrightarrow> \<not> list_ex is_surrogate s"

text \<open>
  \<open>AIAnalysisOutput.model_validate(data)\<close>, also run by the constructor on its keyword
  arguments. pydantic validates the fields in the order of their declaration and
  collects the errors of all fields into one \<open>ValidationError\<close>, whose \<open>str(e)\<close> is
  \<open>errors_str data\<close>; an exception of a validator that is neither \<open>ValueError\<close> nor
  \<open>AssertionError\<close> leaves \<open>model_validate\<close> at once, as it is. Only
  \<open>validate_key_facts\<close> can raise one.
  \<^item> The five \<open>Literal\<close> fields, \<open>confidence_reason\<close> and \<open>summary\<close> have no default:
    a missing key is an error.
  \<^item> A \<open>before\<close> validator runs on the value of a key that is present, and the field
    is checked on what it returns: for \<open>confidence_reason\<close>, \<open>summary\<close> and
    \<open>watch_next\<close> a string without surrogates (\<open>max_length\<close> holds after the
    truncation); for \<open>key_facts\<close> a list of at most three strings, which always holds.
  \<^item> \<open>key_facts\<close> and \<open>watch_next\<close> take their defaults \<open>[]\<close> and \<open>""\<close> when the key
    is missing, without validation. Keys that are no fields are ignored.
  \<^item> Input that is not a dict is an error.
\<close>

definition model_validate ::
  "(json \<Rightarrow> ustring) \<Rightarrow> pylib \<Rightarrow> json \<Rightarrow> exn + AIAnalysisOutput" where
  "model_validate errors_str L data =
     (case data of
        JObject kvs \<Rightarrow>
          (let d = map_of kvs in
           (case (case d (ustr ''key_facts'') of
                    None \<Rightarrow> Inr []
                  | Some v \<Rightarrow> validate_key_facts L v) of
              Inl e \<Rightarrow> Inl e
            | Inr facts \<Rightarrow>
                if literal_ok EVENT_TYPES (d (ustr ''event_type''))
                   \<and> literal_ok IMPACT_DIRECTIONS (d (ustr ''impact_direction''))
                   \<and> literal_ok IMPACT_HORIZONS (d (ustr ''impact_horizon''))
                   \<and> literal_ok THESIS_RELATIONS (d (ustr ''thesis_relation''))
                   \<and> literal_ok CONFIDENCES (d (ustr ''confidence''))
                   \<and> (case d (ustr ''confidence_reason'') of
                         None \<Rightarrow> False
                       | Some v \<Rightarrow> str_is_unicode (validate_confidence_reason L v))
                   \<and> (case d (ustr ''summary'') of
                         None \<Rightarrow> False
                       | Some v \<Rightarrow> str_is_unicode (validate_summary L v))
                   \<and> (case d (ustr ''watch_next'') of
                         None \<Rightarrow> True
                       | Some v \<Rightarrow> str_is_unicode (validate_watch_next L v))
                then Inr \<lparr>event_type = py_str L (the (d (ustr ''event_type''))),
                          impact_direction = py_str L (the (d (ustr ''impact_direction''))),
                          impact_horizon = py_str L (the (d (ustr ''impact_horizon''))),
                          thesis_relation = py_str L (the (d (ustr ''thesis_relation''))),
                          confidence = py_str L (the (d (ustr ''confidence''))),
                          confidence_reason =
                            validate_confidence_reason L (the (d (ustr ''confidence_reason''))),
                          summary_a = validate_summary L (the (d (ustr ''summary''))),
                          key_facts = facts,
                          watch_next = (case d (ustr ''watch_next'') of
                                          None \<Rightarrow> []
                                        | Some v \<Rightarrow> validate_watch_next L v)\<rparr>
                else Inl (ValidationError (errors_str data))))
      | _ \<Rightarrow> Inl (ValidationError (errors_str data)))"

section \<open>app/providers/base.py\<close>

text \<open>
  A provider: what a subclass of \<open>BaseAIProvider\<close> and the libraries supply.
  \<^item> \<open>prompt_template\<close>: the value of the property \<open>prompt_template\<close> (the prompt file
    or the default prompt);
  \<^item> \<open>call_api\<close>: the abstract method \<open>_call_api\<close>; \<open>call_api P n prompt\<close> is the
    outcome of the call with \<open>prompt\<close> made after \<open>n\<close> earlier calls of one \<open>analyze\<close>:
    the triple \<open>(raw_output, tokens_used, cost_usd)\<close> or the exception raised. The cost
    is a \<open>float\<close>, taken as a real number;
  \<^item> \<open>str_format\<close>: \<open>template.format(**kwargs)\<close>, or the exception it raises;
  \<^item> \<open>exc_str\<close>: \<open>str(e)\<close> of an exception that does not carry its message;
  \<^item> \<open>json_error_str\<close>: \<open>str(e)\<close> of the \<open>JSONDecodeError\<close> of \<open>json.loads(s)\<close>;
  \<^item> \<open>validation_error_str\<close>: \<open>str(e)\<close> of the \<open>ValidationError\<close> of
    \<open>AIAnalysisOutput.model_validate(data)\<close>;
  \<^item> \<open>from_exception_data\<close>: the exception that leaves the statement
    \<open>raise ValidationError.from_exception_data("AIAnalysisOutput", [{"type": t, "msg": m}])\<close>:
    the \<open>ValidationError\<close> built, or the exception of pydantic-core when it does
    not accept the description of the error.
\<close>

record provider =
  prompt_template :: ustring
  call_api :: "nat \<Rightarrow> ustring \<Rightarrow> exn + (ustring \<times> int \<times> real)"
  str_format :: "ustring \<Rightarrow> (ustring \<times> ustring) list \<Rightarrow> exn + ustring"
  exc_str :: "exn \<Rightarrow> ustring"
  json_error_str :: "ustring \<Rightarrow> ustring"
  validation_error_str :: "json \<Rightarrow> ustring"
  from_exception_data :: "ustring \<Rightarrow> ustring \<Rightarrow> exn"

text \<open>\<open>str(e)\<close>.\<close>

definition py_exc_str :: "provider \<Rightarrow> exn \<Rightarrow> ustring" where
  "py_exc_str P e =
     (case e of
        ValidationError m \<Rightarrow> m
      | AIAnalysisError m \<Rightarrow> m
      | OtherError m \<Rightarrow> m
      | _ \<Rightarrow> exc_str P e)"

definition is_validation_error :: "exn \<Rightarrow> bool" where
  "is_validation_error e = (case e of ValidationError m \<Rightarrow> True | _ \<Rightarrow> False)"

text \<open>\<open>format_prompt\<close>. A \<open>datetime\<close> is always true, so \<open>published_str\<close> is the
  formatted date.\<close>

definition format_prompt :: "provider \<Rightarrow> pylib \<Rightarrow> NewsItemCreate \<Rightarrow> ustring \<Rightarrow> exn + ustring" where
  "format_prompt P L news thesis =
     (let tickers_str = (case tickers_n news of
                           None \<Rightarrow> ustr ''N/A''
                         | Some ts \<Rightarrow> if ts \<noteq> [] then join (ustr '', '') ts else ustr ''N/A'');
          published_str = strftime L (published_at_n news) (ustr ''%Y-%m-%d %H:%M UTC'')
      in str_format P (prompt_template P)
           [(ustr ''tickers'', tickers_str),
            (ustr ''title'', title_n news),
            (ustr ''source'', source_n news),
            (ustr ''published_at'', published_str),
            (ustr ''content'', (case summary_n news of
                                  None \<Rightarrow> ustr ''(No summary available)''
                                | Some s \<Rightarrow> if s \<noteq> [] then s
                                            else ustr ''(No summary available)'')),
            (ustr ''thesis'', if thesis \<noteq> [] then thesis
                              else ustr ''(No specific investment thesis provided)'')])"

text \<open>\<open>s.find(c)\<close> and \<open>s.rfind(c)\<close> for one character, the slice \<open>s[i:j]\<close> for
  \<open>0 \<le> i\<close> and \<open>0 \<le> j\<close>, and \<open>p in s\<close> for strings.\<close>

definition py_find :: "nat \<Rightarrow> ustring \<Rightarrow> int" where
  "py_find c s = (if c \<in> set s then int (length (takeWhile (\<lambda>x. x \<noteq> c) s)) else - 1)"

definition py_rfind :: "nat \<Rightarrow> ustring \<Rightarrow> int" where
  "py_rfind c s =
     (if c \<in> set s then int (length s) - 1 - int (length (takeWhile (\<lambda>x. x \<noteq> c) (rev s)))
      else - 1)"

definition py_slice :: "int \<Rightarrow> int \<Rightarrow> ustring \<Rightarrow> ustring" where
  "py_slice i j s = take (nat j - nat i) (drop (nat i) s)"

definition str_contains :: "ustring \<Rightarrow> ustring \<Rightarrow> bool" where
  "str_contains p s \<longleftrightarrow> list_ex (\<lambda>i. take (length p) (drop i s) = p) [0..<Suc (length s)]"

text \<open>The first part of \<open>_parse_and_validate\<close>: the text handed to \<open>json.loads\<close>. A
  Markdown code fence is three backquotes (code point 96); \<open>split("\n")\<close> never
  returns an empty list.\<close>

definition FENCE :: ustring where
  "FENCE = [96, 96, 96]"

definition clean_output :: "pylib \<Rightarrow> ustring \<Rightarrow> ustring" where
  "clean_output L raw_output =
     (let cleaned = py_strip L raw_output;
          cleaned =
            (if startswith cleaned FENCE
             then (let lines = split_on 10 [] cleaned;
                       lines = (if startswith (hd lines) FENCE then tl lines else lines);
                       lines = (if lines \<noteq> [] \<and> py_strip L (last lines) = FENCE
                                then butlast lines else lines)
                   in join [10] lines)
             else cleaned);
          start = py_find 123 cleaned;
          end_pos = py_rfind 125 cleaned + 1
      in if start \<ge> 0 \<and> end_pos > start then py_slice start end_pos cleaned else cleaned)"

text \<open>
  The test \<open>"error" in data and isinstance(data.get("error"), dict)\<close> on a decoded
  value: membership is a key of a dict, an entry of a list, a substring of a string,
  and a \<open>TypeError\<close> on anything else; only a dict has \<open>get\<close>. The result is the
  value of \<open>data.get("error")\<close> when the test holds.
\<close>

definition error_response :: "json \<Rightarrow> exn + (ustring \<times> json) list option" where
  "error_response data =
     (case data of
        JObject kvs \<Rightarrow>
          (case map_of kvs (ustr ''error'') of
             Some (JObject err) \<Rightarrow> Inr (Some err)
           | _ \<Rightarrow> Inr None)
      | JArray xs \<Rightarrow> if JString (ustr ''error'') \<in> set xs then Inl AttributeError else Inr None
      | JString s \<Rightarrow> if str_contains (ustr ''error'') s then Inl AttributeError else Inr None
      | _ \<Rightarrow> Inl TypeError)"

text \<open>The second part of \<open>_parse_and_validate\<close>, on the decoded value.\<close>

definition validate_decoded :: "provider \<Rightarrow> pylib \<Rightarrow> json \<Rightarrow> exn + AIAnalysisOutput" where
  "validate_decoded P L data =
     (case error_response data of
        Inl e \<Rightarrow> Inl e
      | Inr (Some err) \<Rightarrow>
          (let error_msg = (case map_of err (ustr ''message'') of
                              None \<Rightarrow> json_str L data
                            | Some m \<Rightarrow> py_str L m)
           in Inl (from_exception_data P (ustr ''api_error'') (ustr ''API error: '' @ error_msg)))
      | Inr None \<Rightarrow> model_validate (validation_error_str P) L data)"

definition parse_and_validate :: "provider \<Rightarrow> pylib \<Rightarrow> ustring \<Rightarrow> exn + AIAnalysisOutput" where
  "parse_and_validate P L raw_output =
     (let cleaned = clean_output L raw_output
      in case json_loads L cleaned of
           None \<Rightarrow> Inl (from_exception_data P (ustr ''json_invalid'')
                          (ustr ''Invalid JSON: '' @ json_error_str P cleaned))
         | Some data \<Rightarrow> validate_decoded P L data)"

text \<open>\<open>_make_strict_prompt\<close>.\<close>

definition make_strict_prompt :: "ustring \<Rightarrow> ustring \<Rightarrow> ustring" where
  "make_strict_prompt original_prompt error_msg =
     original_prompt
     @ ustr ''\<newline>\<newline>IMPORTANT: Your previous response had validation errors: ''
     @ error_msg
     @ ustr ''\<newline>\<newline>Please ensure:\<newline>''
     @ ustr ''1. Output is ONLY valid JSON, no markdown or extra text\<newline>''
     @ ustr ''2. event_type must be exactly one of: earnings, guidance, regulatory, contract, product, accident, macro, rumor, other\<newline>''
     @ ustr ''3. impact_direction must be exactly one of: bullish, bearish, neutral\<newline>''
     @ ustr ''4. impact_horizon must be exactly one of: short, medium, long\<newline>''
     @ ustr ''5. thesis_relation must be exactly one of: supports, weakens, unrelated\<newline>''
     @ ustr ''6. confidence must be exactly one of: high, medium, low\<newline>''
     @ ustr ''7. summary must be 100 characters or less\<newline>''
     @ ustr ''8. key_facts must be an array with at most 3 items\<newline>''
     @ ustr ''9. watch_next must be 50 characters or less''"

text \<open>\<open>_fallback_result\<close>: the constructor validates its keyword arguments, and
  raises \<open>ValidationError\<close> when the first 100 characters of the title hold a
  surrogate.\<close>

definition fallback_result :: "provider \<Rightarrow> pylib \<Rightarrow> NewsItemCreate \<Rightarrow> exn + AIAnalysisOutput" where
  "fallback_result P L news =
     model_validate (validation_error_str P) L
       (JObject
          [(ustr ''event_type'', JString (ustr ''other'')),
           (ustr ''impact_direction'', JString (ustr ''neutral'')),
           (ustr ''impact_horizon'', JString (ustr ''short'')),
           (ustr ''thesis_relation'', JString (ustr ''unrelated'')),
           (ustr ''confidence'', JString (ustr ''low'')),
           (ustr ''confidence_reason'', JString (ustr ''Analysis failed, using fallback'')),
           (ustr ''summary'', JString (if title_n news \<noteq> [] then take 100 (title_n news)
                                       else ustr ''No summary'')),
           (ustr ''key_facts'', JArray []),
           (ustr ''watch_next'', JString [])])"

text \<open>
  \<open>analyze\<close>. The local variables \<open>tokens, cost\<close> and \<open>tokens2, cost2\<close> are bound by the
  tuple assignments after the two calls of \<open>_call_api\<close>; reading one that is not bound
  raises \<open>UnboundLocalError\<close>. \<open>usage_sum\<close> is \<open>tokens + tokens2, cost + cost2\<close>.
\<close>

definition usage_sum :: "(int \<times> real) option \<Rightarrow> (int \<times> real) option \<Rightarrow> exn + (int \<times> real)" where
  "usage_sum first_usage second_usage =
     (case (first_usage, second_usage) of
        (Some (tokens, cost), Some (tokens2, cost2)) \<Rightarrow> Inr (tokens + tokens2, cost + cost2)
      | _ \<Rightarrow> Inl UnboundLocalError)"

text \<open>The handler \<open>except ValidationError as e2\<close> of the second attempt.\<close>

definition fallback_return ::
  "provider \<Rightarrow> pylib \<Rightarrow> NewsItemCreate \<Rightarrow> (int \<times> real) option \<Rightarrow> (int \<times> real) option
     \<Rightarrow> exn + (AIAnalysisOutput \<times> int \<times> real)" where
  "fallback_return P L news first_usage second_usage =
     (case fallback_result P L news of
        Inl e \<Rightarrow> Inl e
      | Inr result \<Rightarrow>
          (case usage_sum first_usage second_usage of
             Inl e \<Rightarrow> Inl e
           | Inr (t, c) \<Rightarrow> Inr (result, t, c)))"

text \<open>
  The handler \<open>except ValidationError as e\<close> of the first attempt, with \<open>error_msg\<close>
  the value of \<open>str(e)\<close>. An exception of its inner \<open>try\<close> that is no
  \<open>ValidationError\<close>, and an exception of the inner handler, leave \<open>analyze\<close> as
  they are: the clause \<open>except Exception\<close> guards the body of the outer \<open>try\<close> only.
\<close>

definition second_attempt ::
  "provider \<Rightarrow> pylib \<Rightarrow> NewsItemCreate \<Rightarrow> ustring \<Rightarrow> ustring \<Rightarrow> (int \<times> real) option
     \<Rightarrow> exn + (AIAnalysisOutput \<times> int \<times> real)" where
  "second_attempt P L news prompt error_msg first_usage =
     (let strict_prompt = make_strict_prompt prompt error_msg
      in case call_api P 1 strict_prompt of
           Inl e2 \<Rightarrow>
             if is_validation_error e2 then fallback_return P L news first_usage None
             else Inl e2
         | Inr (raw_output, tokens2, cost2) \<Rightarrow>
             (case parse_and_validate P L raw_output of
                Inr result \<Rightarrow>
                  (case usage_sum first_usage (Some (tokens2, cost2)) of
                     Inl e2 \<Rightarrow> Inl e2
                   | Inr (t, c) \<Rightarrow> Inr (result, t, c))
              | Inl e2 \<Rightarrow>
                  if is_validation_error e2
                  then fallback_return P L news first_usage (Some (tokens2, cost2))
                  else Inl e2))"

text \<open>The handlers of the outer \<open>try\<close>, for an exception \<open>e\<close> of its body:
  \<open>except ValidationError\<close>, then \<open>except Exception\<close>; any other exception leaves
  \<open>analyze\<close> as it is.\<close>

definition first_attempt_failed ::
  "provider \<Rightarrow> pylib \<Rightarrow> NewsItemCreate \<Rightarrow> ustring \<Rightarrow> exn \<Rightarrow> (int \<times> real) option
     \<Rightarrow> exn + (AIAnalysisOutput \<times> int \<times> real)" where
  "first_attempt_failed P L news prompt e first_usage =
     (if is_validation_error e
      then second_attempt P L news prompt (py_exc_str P e) first_usage
      else if is_exception e
      then Inl (AIAnalysisError (ustr ''Analysis failed: '' @ py_exc_str P e))
      else Inl e)"

definition analyze ::
  "provider \<Rightarrow> pylib \<Rightarrow> NewsItemCreate \<Rightarrow> ustring \<Rightarrow> exn + (AIAnalysisOutput \<times> int \<times> real)" where
  "analyze P L news thesis =
     (case format_prompt P L news thesis of
        Inl e \<Rightarrow> Inl e
      | Inr prompt \<Rightarrow>
          (case call_api P 0 prompt of
             Inl e \<Rightarrow> first_attempt_failed P L news prompt e None
           | Inr (raw_output, tokens, cost) \<Rightarrow>
               (case parse_and_validate P L raw_output of
                  Inr result \<Rightarrow> Inr (result, tokens, cost)
                | Inl e \<Rightarrow> first_attempt_failed P L news prompt e (Some (tokens, cost)))))"

section \<open>A library instance for ASCII inputs\<close>

text \<open>
  The examples below are evaluated with \<open>ascii_lib\<close>, which agrees with Python on the
  inputs the examples use: strings of ASCII characters only, so that the entries for
  code points above 127 are never consulted;
  \<open>float\<close> of a non-empty string of ASCII digits is the number the digits denote;
  the texts handed to \<open>json.loads\<close> are not JSON; the \<open>datetime\<close> fields are absent.
  The entries for SHA-256, SimHash, \<open>strftime\<close> and \<open>str(v)\<close> are placeholders:
  no example depends on the value they return.
\<close>

definition digits_float :: "ustring \<Rightarrow> real option" where
  "digits_float s =
     (if s \<noteq> [] \<and> list_all (\<lambda>c. 48 \<le> c \<and> c \<le> 57) s
      then Some (real (foldl (\<lambda>a c. 10 * a + (c - 48)) 0 s))
      else None)"

definition ascii_lib :: pylib where
  "ascii_lib =
     \<lparr>py_float = digits_float,
      uni_nfkc = (\<lambda>s. s),
      uni_lower = (\<lambda>s. s),
      uni_isalnum = (\<lambda>c. False),
      uni_isspace = (\<lambda>c. False),
      utf8_decode_invalid = (\<lambda>bs. []),
      check_bracketed_host = (\<lambda>h. False),
      sha256_hexdigest = (\<lambda>s. s),
      simhash_value = (\<lambda>s. 0),
      strftime = (\<lambda>d f. []),
      json_loads = (\<lambda>s. None),
      json_str = (\<lambda>v. [])\<rparr>"

section \<open>Example inputs\<close>

definition example_now :: datetime where
  "example_now = \<lparr>year = 2024, month = 1, day = 15, hour = 10, minute = 0, second = 0\<rparr>"

text \<open>A filing collected from a source that the credibility table rates \<open>medium\<close>, and
  a news item from a source the table does not list.\<close>

definition example_filing :: RawNewsData where
  "example_filing =
     \<lparr>source = ustr ''finnhub'', source_type = ustr ''filing'', external_id = None,
      url = ustr ''https://example.com/a'', title = ustr ''Form 8-K'', summary = None,
      published_at = None, tickers = [ustr ''NVDA'']\<rparr>"

definition example_blog_news :: RawNewsData where
  "example_blog_news =
     \<lparr>source = ustr ''blog'', source_type = ustr ''news'', external_id = None,
      url = ustr ''https://example.com/b'', title = ustr ''Rumor'', summary = None,
      published_at = None, tickers = [ustr ''NVDA'']\<rparr>"

text \<open>
  Five raw items: the second has the canonical URL of the first; the third has the
  normalized title, date and source of the first; the fifth has the title of the
  fourth but another source, so that only the similarity stage merges them.
\<close>

definition raw_item :: "string \<Rightarrow> string \<Rightarrow> string \<Rightarrow> RawNewsData" where
  "raw_item src u t =
     \<lparr>source = ustr src, source_type = ustr ''news'', external_id = None,
      url = ustr u, title = ustr t, summary = None, published_at = None, tickers = []\<rparr>"

definition example_items :: "RawNewsData list" where
  "example_items =
     [raw_item ''finnhub'' ''http://a.io/1?ref=x'' ''Nvidia Q4!'',
      raw_item ''finnhub'' ''http://a.io/1'' ''Nvidia Q4!'',
      raw_item ''finnhub'' ''http://b.io/2'' ''NVIDIA q4'',
      raw_item ''finnhub'' ''http://a.io/3'' ''AMD GPU'',
      raw_item ''polygon'' ''http://c.io/4'' ''AMD GPU'']"

text \<open>
  Two Finnhub items with different URLs; the first has no headline (the collector
  fills \<open>title\<close> with the empty string then), so its normalized title is empty.
\<close>

definition untitled_items :: "RawNewsData list" where
  "untitled_items =
     [raw_item ''finnhub'' ''http://a.io/1'' '''',
      raw_item ''finnhub'' ''http://a.io/2'' ''AMD GPU'']"

text \<open>
  A provider whose model answers \<open>{}\<close> to every prompt, 10 tokens for 0.001 USD the
  first time and 20 tokens for 0.002 USD the second time, and a library that decodes
  \<open>{}\<close>. The messages of exceptions are left empty.
\<close>

definition braces_lib :: pylib where
  "braces_lib = ascii_lib\<lparr>json_loads := (\<lambda>s. if s = ustr ''{}'' then Some (JObject []) else None)\<rparr>"

definition braces_provider :: provider where
  "braces_provider =
     \<lparr>prompt_template = ustr ''Analyze'',
      call_api = (\<lambda>n prompt. if n = 0 then Inr (ustr ''{}'', 10, 1/1000)
                               else Inr (ustr ''{}'', 20, 2/1000)),
      str_format = (\<lambda>t kw. Inr t),
      exc_str = (\<lambda>e. []),
      json_error_str = (\<lambda>s. []),
      validation_error_str = (\<lambda>d. []),
      from_exception_data = (\<lambda>t m. TypeError)\<rparr>"

text \<open>A news item without a title, and one with a title.\<close>

definition untitled_news :: NewsItemCreate where
  "untitled_news =
     \<lparr>canonical_url = ustr ''http://a.io/1'', title_n = [], title_normalized = None,
      content_hash = None, summary_n = None, published_at_n = example_now,
      source_n = ustr ''finnhub'', source_type_n = ustr ''news'', credibility = ustr ''medium'',
      tickers_n = None, raw_item_id = None\<rparr>"

definition titled_news :: NewsItemCreate where
  "titled_news = untitled_news\<lparr>title_n := ustr ''AMD GPU''\<rparr>"

text \<open>A decoded answer with valid \<open>Literal\<close> fields and nothing else; the same with a
  summary of 150 characters and a reason.\<close>

definition enums_only :: "(ustring \<times> json) list" where
  "enums_only =
     [(ustr ''event_type'', JString (ustr ''earnings'')),
      (ustr ''impact_direction'', JString (ustr ''bullish'')),
      (ustr ''impact_horizon'', JString (ustr ''short'')),
      (ustr ''thesis_relation'', JString (ustr ''supports'')),
      (ustr ''confidence'', JString (ustr ''high''))]"

definition long_answer :: "(ustring \<times> json) list" where
  "long_answer =
     enums_only @ [(ustr ''confidence_reason'', JString (ustr ''filing'')),
                   (ustr ''summary'', JString (replicate 150 97))]"

(*THEOREMS*)

section \<open>Helper lemmas\<close>


lemma execute_attempts_exhausted:
  assumes "api_name \<in> set limiters"
    and "k \<le> m"
    and "\<forall>n. k \<le> n \<and> n \<le> m \<longrightarrow> (\<exists>e. func n = Inl e \<and> retryable e)"
  shows "fst (execute_attempts L limiters api_name func jitter (int m) [k ..< Suc m] sleeps last_error)
           = Inl (exhausted_error L (projl (func m)))"
  using assms(2,3)
proof (induction "m - k" arbitrary: k sleeps last_error)
  case 0
  then have km: "k = m" by simp
  from 0 km obtain e where e: "func m = Inl e" "retryable e" by auto
  have l: "[m ..< Suc m] = [m]" by simp
  show ?case unfolding km l using e assms(1)
    by (cases e) auto
next
  case (Suc d)
  then have lt: "k < m" by simp
  from Suc lt obtain e where e: "func k = Inl e" "retryable e"
    by (metis less_or_eq_imp_le)
  have l: "[k ..< Suc m] = k # [Suc k ..< Suc m]"
    using lt by (simp add: upt_conv_Cons)
  have IH: "\<And>sleeps last_error.
      fst (execute_attempts L limiters api_name func jitter (int m) [Suc k ..< Suc m] sleeps last_error)
        = Inl (exhausted_error L (projl (func m)))"
    using Suc(1)[of "Suc k"] Suc(2,3,4) lt by auto
  show ?case unfolding l using e assms(1) lt IH
    by (cases e) (auto simp: Let_def)
qed


lemma execute_attempts_sleeps_prefix:
  "\<exists>ys. snd (execute_attempts L limiters api_name func jitter m xs sleeps last_error) = sleeps @ ys"
proof (induction xs arbitrary: sleeps last_error)
  case Nil
  then show ?case by (simp split: option.splits)
next
  case (Cons attempt rest)
  have step: "\<And>w e. \<exists>ys. snd (execute_attempts L limiters api_name func jitter m rest
                      (sleeps @ [w]) e) = sleeps @ ys"
  proof -
    fix w e
    from Cons[of "sleeps @ [w]" e] obtain ys where
      "snd (execute_attempts L limiters api_name func jitter m rest (sleeps @ [w]) e)
         = (sleeps @ [w]) @ ys" by blast
    then show "\<exists>ys. snd (execute_attempts L limiters api_name func jitter m rest
                      (sleeps @ [w]) e) = sleeps @ ys" by simp
  qed
  show ?case
  proof (cases "func attempt")
    case (Inr r)
    then show ?thesis by simp
  next
    case (Inl e)
    then show ?thesis using step
      by (cases e) (simp_all add: Let_def)
  qed
qed

lemma execute_attempts_sleeps:
  assumes "api_name \<in> set limiters"
    and "k \<le> a" and "a < n" and "int a < m"
    and "\<forall>i. k \<le> i \<and> i \<le> a \<longrightarrow> (\<exists>e. func i = Inl e \<and> retryable e)"
  shows "length sleeps + (a - k)
           < length (snd (execute_attempts L limiters api_name func jitter m [k ..< n] sleeps last_error))
       \<and> snd (execute_attempts L limiters api_name func jitter m [k ..< n] sleeps last_error)
           ! (length sleeps + (a - k))
         = calculate_backoff a (jitter a) (backoff_retry_after L (projl (func a)))"
  using assms(2,5)
proof (induction "a - k" arbitrary: k sleeps last_error)
  case 0
  then have ka: "k = a" by simp
  from 0 ka obtain e where e: "func a = Inl e" "retryable e" by auto
  have l: "[a ..< n] = a # [Suc a ..< n]" using assms(3) by (simp add: upt_conv_Cons)
  let ?w = "calculate_backoff a (jitter a) (backoff_retry_after L e)"
  have rec: "execute_attempts L limiters api_name func jitter m [a ..< n] sleeps last_error
        = execute_attempts L limiters api_name func jitter m [Suc a ..< n] (sleeps @ [?w]) (Some e)"
    unfolding l using e assms(1,4) by (cases e) (auto simp: Let_def)
  obtain ys where ys: "snd (execute_attempts L limiters api_name func jitter m [Suc a ..< n]
                         (sleeps @ [?w]) (Some e)) = (sleeps @ [?w]) @ ys"
    using execute_attempts_sleeps_prefix by blast
  show ?case unfolding ka rec ys using e by (simp add: nth_append)
next
  case (Suc d)
  then have lt: "k < a" by simp
  from Suc lt obtain e where e: "func k = Inl e" "retryable e"
    by (metis less_or_eq_imp_le order_refl)
  have kn: "k < n" using lt assms(3) by simp
  have km: "int k < m" using lt assms(4) by simp
  have l: "[k ..< n] = k # [Suc k ..< n]" using kn by (simp add: upt_conv_Cons)
  let ?w = "calculate_backoff k (jitter k) (backoff_retry_after L e)"
  have rec: "execute_attempts L limiters api_name func jitter m [k ..< n] sleeps last_error
        = execute_attempts L limiters api_name func jitter m [Suc k ..< n] (sleeps @ [?w]) (Some e)"
    unfolding l using e assms(1) km by (cases e) (auto simp: Let_def)
  have d: "d = a - Suc k" using Suc(2) by simp
  have le: "Suc k \<le> a" using lt by simp
  have all: "\<forall>i. Suc k \<le> i \<and> i \<le> a \<longrightarrow> (\<exists>e. func i = Inl e \<and> retryable e)"
    using Suc(4) by auto
  have idx: "length (sleeps @ [?w]) + (a - Suc k) = length sleeps + (a - k)"
    using lt by simp
  show ?case
    unfolding rec
    using Suc(1)[OF d le all, of "sleeps @ [?w]" "Some e"] unfolding idx by simp
qed

lemma calculate_backoff_formula:
  assumes "0 < j"
  shows "calculate_backoff a j None = min 60 (2 ^ a * j)"
    and "calculate_backoff a j (Some r) = min 60 (max (2 ^ a * j) r)"
proof -
  have pos: "0 < (2::real) ^ a * j" using assms by simp
  show "calculate_backoff a j None = min 60 (2 ^ a * j)"
    by (simp add: calculate_backoff_def Let_def min_def)
  show "calculate_backoff a j (Some r) = min 60 (max (2 ^ a * j) r)"
    using pos by (auto simp: calculate_backoff_def Let_def min_def max_def)
qed

lemma no_double_append:
  assumes "\<not> sublist [a, a] xs" and "\<not> sublist [a, a] ys" and "xs \<noteq> [] \<longrightarrow> last xs \<noteq> a"
  shows "\<not> sublist [a, a] (xs @ ys)"
  using assms
proof (induction xs)
  case Nil
  then show ?case by simp
next
  case (Cons x xs)
  have nx: "\<not> sublist [a, a] xs" using Cons.prems(1) by (simp add: sublist_Cons_right)
  have lx: "xs \<noteq> [] \<longrightarrow> last xs \<noteq> a" using Cons.prems(3) by auto
  have IH: "\<not> sublist [a, a] (xs @ ys)" using Cons.IH[OF nx Cons.prems(2) lx] .
  have "\<not> prefix [a, a] (x # xs @ ys)"
  proof (cases xs)
    case Nil
    then show ?thesis using Cons.prems(3) by auto
  next
    case (Cons z zs)
    then show ?thesis using Cons.prems(1) by (auto simp: sublist_Cons_right)
  qed
  then show ?case using IH by (simp add: sublist_Cons_right)
qed

lemma no_double_absent: "a \<notin> set xs \<Longrightarrow> \<not> sublist [a, a] xs"
  by (induction xs) (auto simp: sublist_Cons_right)

lemma split_whitespace_words:
  assumes "\<forall>c \<in> set cur. \<not> py_isspace L c"
    and "w \<in> set (split_whitespace L cur s)"
  shows "w \<noteq> [] \<and> (\<forall>c \<in> set w. \<not> py_isspace L c \<and> (c \<in> set cur \<or> c \<in> set s))"
  using assms
proof (induction s arbitrary: cur)
  case Nil
  then show ?case by (simp split: if_splits)
next
  case (Cons c cs)
  show ?case
  proof (cases "py_isspace L c")
    case sp: True
    show ?thesis
    proof (cases "cur = []")
      case True
      with sp Cons.prems have "w \<in> set (split_whitespace L [] cs)" by simp
      from Cons.IH[OF _ this] show ?thesis by simp
    next
      case False
      with sp Cons.prems have "w = cur \<or> w \<in> set (split_whitespace L [] cs)" by simp
      then show ?thesis
      proof
        assume "w = cur"
        then show ?thesis using False Cons.prems(1) by simp
      next
        assume "w \<in> set (split_whitespace L [] cs)"
        from Cons.IH[OF _ this] show ?thesis by simp
      qed
    qed
  next
    case nsp: False
    with Cons.prems have m: "w \<in> set (split_whitespace L (cur @ [c]) cs)" by simp
    have "\<forall>x \<in> set (cur @ [c]). \<not> py_isspace L x" using nsp Cons.prems(1) by simp
    from Cons.IH[OF this m] show ?thesis by auto
  qed
qed

lemma py_isspace_space: "py_isspace L 32"
  by (simp add: py_isspace_def is_ascii_def ascii_isspace_def)

lemma join_space_shape:
  assumes "\<forall>w \<in> set ws. w \<noteq> [] \<and> 32 \<notin> set w"
  shows "(ws \<noteq> [] \<longrightarrow> join [32] ws \<noteq> [] \<and> hd (join [32] ws) \<noteq> 32 \<and> last (join [32] ws) \<noteq> 32)
       \<and> \<not> sublist [32, 32] (join [32] ws)
       \<and> set (join [32] ws) \<subseteq> insert 32 (\<Union> (set ` set ws))"
  using assms
proof (induction "[32::nat]" ws rule: join.induct)
  case 1
  then show ?case by simp
next
  case (2 x)
  then have x: "x \<noteq> []" "32 \<notin> set x" by auto
  have "hd x \<noteq> 32" "last x \<noteq> 32" using x by (metis hd_in_set, metis last_in_set)
  then show ?case using x no_double_absent[of 32 x] by auto
next
  case (3 x y ys)
  let ?r = "join [32] (y # ys)"
  have x: "x \<noteq> []" "32 \<notin> set x" using 3(2) by auto
  have "\<forall>w\<in>set (y # ys). w \<noteq> [] \<and> 32 \<notin> set w" using 3(2) by simp
  from 3(1)[OF this]
  have IH: "?r \<noteq> []" "hd ?r \<noteq> 32" "last ?r \<noteq> 32" "\<not> sublist [32, 32] ?r"
    "set ?r \<subseteq> insert 32 (\<Union> (set ` set (y # ys)))"
    by auto
  have n1: "\<not> sublist [32, 32] (32 # ?r)"
    using IH(1,2,4) by (cases ?r) (auto simp: sublist_Cons_right)
  have lastx: "last x \<noteq> 32" using x by (metis last_in_set)
  have a: "\<not> sublist [32, 32] (x @ 32 # ?r)"
    using no_double_append[OF no_double_absent[OF x(2)] n1] lastx by simp
  have b: "hd (x @ 32 # ?r) \<noteq> 32" using x by (cases x) auto
  have c: "last (x @ 32 # ?r) \<noteq> 32" using IH(1,3) by simp
  have d: "set (x @ 32 # ?r) \<subseteq> insert 32 (\<Union> (set ` set (x # y # ys)))"
    using IH(5) by auto
  show ?case using a b c d by simp
qed

subsection \<open>Deduplication stages\<close>

lemma first_occurrences_subseq: "subseq (first_occurrences key ks items) items"
  by (induction items arbitrary: ks) (auto intro: subseq_Cons')

lemma first_occurrences_distinct:
  "distinct ks \<Longrightarrow> distinct (ks @ map key (first_occurrences key ks items))"
proof (induction items arbitrary: ks)
  case Nil
  then show ?case by simp
next
  case (Cons x xs)
  show ?case
  proof (cases "key x \<in> set ks")
    case True
    then show ?thesis using Cons.IH[OF Cons.prems] by simp
  next
    case False
    then have "distinct (ks @ [key x])" using Cons.prems by simp
    from Cons.IH[OF this] show ?thesis using False by simp
  qed
qed

lemma first_occurrences_first:
  "x \<in> set (first_occurrences key ks items) \<Longrightarrow>
     \<exists>pre post. items = pre @ x # post \<and> (\<forall>p \<in> set pre. key p \<noteq> key x) \<and> key x \<notin> set ks"
proof (induction items arbitrary: ks)
  case Nil
  then show ?case by simp
next
  case (Cons y ys)
  show ?case
  proof (cases "key y \<in> set ks")
    case True
    with Cons.prems have "x \<in> set (first_occurrences key ks ys)" by simp
    from Cons.IH[OF this] obtain pre post where
      p: "ys = pre @ x # post" "\<forall>p \<in> set pre. key p \<noteq> key x" "key x \<notin> set ks" by blast
    have "y # ys = (y # pre) @ x # post" using p(1) by simp
    moreover have "\<forall>p \<in> set (y # pre). key p \<noteq> key x" using p(2,3) True by auto
    ultimately show ?thesis using p(3) by blast
  next
    case False
    with Cons.prems have "x = y \<or> x \<in> set (first_occurrences key (ks @ [key y]) ys)" by simp
    then show ?thesis
    proof
      assume "x = y"
      then have "y # ys = [] @ x # ys" by simp
      then show ?thesis using False \<open>x = y\<close> by (metis empty_iff list.set(1))
    next
      assume "x \<in> set (first_occurrences key (ks @ [key y]) ys)"
      from Cons.IH[OF this] obtain pre post where
        p: "ys = pre @ x # post" "\<forall>p \<in> set pre. key p \<noteq> key x" "key x \<notin> set (ks @ [key y])" by blast
      have "y # ys = (y # pre) @ x # post" using p(1) by simp
      moreover have "\<forall>p \<in> set (y # pre). key p \<noteq> key x" using p(2,3) by auto
      moreover have "key x \<notin> set ks" using p(3) by simp
      ultimately show ?thesis by blast
    qed
  qed
qed

lemma key_dedup_loop_seen:
  "map snd (fst (key_dedup_loop key items seen duplicates))
     = map snd seen @ first_occurrences key (map fst seen) items"
proof (induction items arbitrary: seen duplicates)
  case Nil
  then show ?case by simp
next
  case (Cons item items)
  show ?case
  proof (cases "map_of seen (key item)")
    case None
    then have "key item \<notin> set (map fst seen)" by (simp add: map_of_eq_None_iff)
    then show ?thesis using None Cons.IH by (simp add: Let_def)
  next
    case (Some first_item)
    then have "key item \<in> set (map fst seen)"
      by (metis map_of_eq_None_iff option.distinct(1) set_map)
    then show ?thesis using Some Cons.IH by (simp add: Let_def)
  qed
qed

lemma key_dedup_kept: "fst (key_dedup key m items) = first_occurrences key [] items"
  using key_dedup_loop_seen[of key items "[]" "[]"]
  by (cases "key_dedup_loop key items [] []") (simp add: key_dedup_def)

lemma key_dedup_method: "c \<in> set (snd (key_dedup key m items)) \<Longrightarrow> method_c c = m"
  by (auto simp: key_dedup_def split: prod.splits)

lemma inner_fold:
  assumes "distinct js"
  shows "foldl (inner_step similar item_of entries i) (s, R) js =
     (s @ map (\<lambda>j. url (item_of (entries ! j)))
            (filter (\<lambda>j. j \<notin> R \<and> similar (entries ! i) (entries ! j)) js),
      R \<union> set (filter (\<lambda>j. j \<notin> R \<and> similar (entries ! i) (entries ! j)) js))"
  using assms
proof (induction js arbitrary: s R)
  case Nil
  then show ?case by simp
next
  case (Cons j js)
  have d: "distinct js" and nj: "j \<notin> set js" using Cons.prems by auto
  show ?case
  proof (cases "j \<in> R")
    case True
    then show ?thesis using Cons.IH[OF d, of s R] by (simp add: inner_step_def)
  next
    case False
    show ?thesis
    proof (cases "similar (entries ! i) (entries ! j)")
      case nsim: False
      then show ?thesis using False Cons.IH[OF d, of s R] by (simp add: inner_step_def)
    next
      case sim: True
      have eq: "filter (\<lambda>x. x \<noteq> j \<and> x \<notin> R \<and> similar (entries ! i) (entries ! x)) js
              = filter (\<lambda>x. x \<notin> R \<and> similar (entries ! i) (entries ! x)) js"
        using nj by (intro filter_cong) auto
      have eq2: "{x \<in> set js. x \<noteq> j \<and> x \<notin> R \<and> similar (entries ! i) (entries ! x)}
              = {x \<in> set js. x \<notin> R \<and> similar (entries ! i) (entries ! x)}"
        using nj by auto
      show ?thesis
        using False sim Cons.IH[OF d, of "s @ [url (item_of (entries ! j))]" "insert j R"]
        by (simp add: inner_step_def eq eq2)
    qed
  qed
qed

lemma upt_split_at:
  assumes "k < n"
  shows "[0 ..< n] = [0 ..< k] @ k # [Suc k ..< n]"
proof -
  have "[0 ..< n] = [0 ..< k] @ [k ..< n]"
    using assms upt_add_eq_append[of 0 k "n - k"] by simp
  then show ?thesis using assms by (simp add: upt_conv_Cons)
qed

lemma subseq_head_filter_upt:
  assumes "k < n"
  shows "subseq (k # filter P [Suc k ..< n]) [0 ..< n]"
proof -
  have "subseq (k # filter P [Suc k ..< n]) (k # [Suc k ..< n])"
    by (simp add: subseq_filter_left)
  then have "subseq (k # filter P [Suc k ..< n]) ([0 ..< k] @ k # [Suc k ..< n])"
    by (rule list_emb_append2)
  then show ?thesis using upt_split_at[OF assms] by simp
qed

lemma outer_step_removed:
  assumes "k \<in> R0"
  shows "outer_step similar item_of thr entries (kept0, cl0, R0) k = (kept0, cl0, R0)"
  using assms by (simp add: outer_step_def)

lemma outer_step_kept:
  assumes "k \<notin> R0"
  shows "outer_step similar item_of thr entries (kept0, cl0, R0) k =
     (let ns = filter (\<lambda>j. j \<notin> R0 \<and> similar (entries ! k) (entries ! j)) [Suc k ..< length entries]
      in (kept0 @ [item_of (entries ! k)],
          (if ns \<noteq> []
           then cl0 @ [\<lparr>representative_url = url (item_of (entries ! k)),
                        member_urls = map (\<lambda>j. url (item_of (entries ! j))) ns,
                        method_c = ustr ''similarity'', similarity_score = Some thr\<rparr>]
           else cl0),
          R0 \<union> set ns))"
proof -
  have inner: "foldl (inner_step similar item_of entries k) ([url (item_of (entries ! k))], R0)
        [Suc k ..< length entries]
      = (url (item_of (entries ! k)) # map (\<lambda>j. url (item_of (entries ! j)))
            (filter (\<lambda>j. j \<notin> R0 \<and> similar (entries ! k) (entries ! j)) [Suc k ..< length entries]),
         R0 \<union> set (filter (\<lambda>j. j \<notin> R0 \<and> similar (entries ! k) (entries ! j)) [Suc k ..< length entries]))"
    using inner_fold[of "[Suc k ..< length entries]" similar item_of entries k
        "[url (item_of (entries ! k))]" R0]
    by simp
  show ?thesis
    using assms unfolding outer_step_def Let_def
    by (simp add: inner)
qed

lemma similarity_inv_step:
  assumes inv: "similarity_inv similar item_of entries k (kept0, cl0, R0)"
    and kn: "k < length entries"
  shows "similarity_inv similar item_of entries (Suc k)
           (outer_step similar item_of thr entries (kept0, cl0, R0) k)"
proof -
  let ?n = "length entries"
  let ?f = "\<lambda>i. item_of (entries ! i)"
  let ?u = "\<lambda>j. url (item_of (entries ! j))"
  have IH1: "kept0 = map ?f (filter (\<lambda>i. i \<notin> R0) [0 ..< k])"
    using inv by (simp add: similarity_inv_def)
  have IH2: "\<forall>i<k. i \<notin> R0 \<longrightarrow>
      (\<forall>j. i < j \<and> j < ?n \<and> similar (entries ! i) (entries ! j) \<longrightarrow> j \<in> R0)"
    using inv by (simp add: similarity_inv_def)
  have IH3: "\<forall>c \<in> set cl0. method_c c = ustr ''similarity''
        \<and> (\<exists>js. subseq js [0 ..< ?n] \<and> representative_url c # member_urls c = map ?u js)"
    using inv by (simp add: similarity_inv_def)
  show ?thesis
  proof (cases "k \<in> R0")
    case True
    have a: "kept0 = map ?f (filter (\<lambda>i. i \<notin> R0) [0 ..< Suc k])"
      using IH1 True by simp
    have b: "\<forall>i<Suc k. i \<notin> R0 \<longrightarrow>
        (\<forall>j. i < j \<and> j < ?n \<and> similar (entries ! i) (entries ! j) \<longrightarrow> j \<in> R0)"
    proof (intro allI impI)
      fix i j assume i: "i < Suc k" "i \<notin> R0"
        and j: "i < j \<and> j < ?n \<and> similar (entries ! i) (entries ! j)"
      have "i \<noteq> k" using i(2) True by auto
      then have "i < k" using i(1) by simp
      then show "j \<in> R0" using IH2 i(2) j by blast
    qed
    show ?thesis
      unfolding outer_step_removed[OF True] similarity_inv_def
      using a b IH3 by simp
  next
    case False
    define ns where "ns = filter (\<lambda>j. j \<notin> R0 \<and> similar (entries ! k) (entries ! j)) [Suc k ..< ?n]"
    define cl1 where "cl1 = (if ns \<noteq> []
        then cl0 @ [\<lparr>representative_url = ?u k, member_urls = map ?u ns,
                     method_c = ustr ''similarity'', similarity_score = Some thr\<rparr>]
        else cl0)"
    have res: "outer_step similar item_of thr entries (kept0, cl0, R0) k
        = (kept0 @ [?f k], cl1, R0 \<union> set ns)"
      unfolding outer_step_kept[OF False] ns_def cl1_def Let_def by simp
    have nsgt: "\<forall>j \<in> set ns. k < j" by (auto simp: ns_def)
    have same: "\<And>i. i \<le> k \<Longrightarrow> (i \<in> R0 \<union> set ns) = (i \<in> R0)"
      using nsgt by auto
    have f1: "filter (\<lambda>i. i \<notin> R0 \<union> set ns) [0 ..< k] = filter (\<lambda>i. i \<notin> R0) [0 ..< k]"
      using nsgt by (intro filter_cong) auto
    have f2: "k \<notin> R0 \<union> set ns" using nsgt False by auto
    have a: "kept0 @ [?f k] = map ?f (filter (\<lambda>i. i \<notin> R0 \<union> set ns) [0 ..< Suc k])"
      using IH1 f1 f2 by simp
    have b: "\<forall>i<Suc k. i \<notin> R0 \<union> set ns \<longrightarrow>
        (\<forall>j. i < j \<and> j < ?n \<and> similar (entries ! i) (entries ! j) \<longrightarrow> j \<in> R0 \<union> set ns)"
    proof (intro allI impI)
      fix i j assume i: "i < Suc k" "i \<notin> R0 \<union> set ns"
        and j: "i < j \<and> j < ?n \<and> similar (entries ! i) (entries ! j)"
      show "j \<in> R0 \<union> set ns"
      proof (cases "i = k")
        case True
        then show ?thesis using j by (auto simp: ns_def)
      next
        case False
        then have "i < k" "i \<notin> R0" using i by auto
        then have "j \<in> R0" using IH2 j by blast
        then show ?thesis by simp
      qed
    qed
    have c: "\<forall>c \<in> set cl1. method_c c = ustr ''similarity''
        \<and> (\<exists>js. subseq js [0 ..< ?n] \<and> representative_url c # member_urls c = map ?u js)"
    proof
      fix c assume cin: "c \<in> set cl1"
      show "method_c c = ustr ''similarity''
        \<and> (\<exists>js. subseq js [0 ..< ?n] \<and> representative_url c # member_urls c = map ?u js)"
      proof (cases "c \<in> set cl0")
        case True
        then show ?thesis using IH3 by simp
      next
        case False
        then have ceq: "c = \<lparr>representative_url = ?u k, member_urls = map ?u ns,
                method_c = ustr ''similarity'', similarity_score = Some thr\<rparr>"
          using cin by (simp add: cl1_def split: if_splits)
        have s: "subseq (k # ns) [0 ..< ?n]"
          unfolding ns_def using subseq_head_filter_upt[OF kn] .
        have r: "representative_url c # member_urls c = map ?u (k # ns)"
          by (simp add: ceq)
        have m: "method_c c = ustr ''similarity''" by (simp add: ceq)
        have "\<exists>js. subseq js [0 ..< ?n] \<and> representative_url c # member_urls c = map ?u js"
          using s r by (intro exI[of _ "k # ns"]) simp
        then show ?thesis using m by simp
      qed
    qed
    show ?thesis
      unfolding res similarity_inv_def using a b c by simp
  qed
qed

lemma similarity_inv_fold:
  assumes "k \<le> length entries"
  shows "similarity_inv similar item_of entries k
           (foldl (outer_step similar item_of thr entries) ([], [], {}) [0 ..< k])"
  using assms
proof (induction k)
  case 0
  show ?case by (simp add: similarity_inv_def)
next
  case (Suc k)
  obtain kept0 cl0 R0 where st:
    "foldl (outer_step similar item_of thr entries) ([], [], {}) [0 ..< k] = (kept0, cl0, R0)"
    by (rule prod_cases3)
  have "similarity_inv similar item_of entries k (kept0, cl0, R0)"
    using Suc.IH Suc.prems st by simp
  from similarity_inv_step[OF this, of thr] Suc.prems
  show ?case by (simp add: st)
qed

lemma map_item_of_nth:
  "map (\<lambda>i. item_of (entries ! i)) [0 ..< length entries] = map item_of entries"
proof -
  have "map (\<lambda>i. item_of (entries ! i)) [0 ..< length entries]
      = map item_of (map (\<lambda>i. entries ! i) [0 ..< length entries])"
    by simp
  then show ?thesis by (simp only: map_nth)
qed

lemma similarity_loop_props:
  assumes res: "similarity_loop similar item_of thr entries = (kept, cl)"
  shows "subseq kept (map item_of entries)"
    and "(\<forall>a \<in> set entries. \<forall>b \<in> set entries. similar a b = sim (item_of a) (item_of b))
           \<Longrightarrow> sorted_wrt (\<lambda>x y. \<not> sim x y) kept"
    and "\<forall>c \<in> set cl. method_c c = ustr ''similarity''
           \<and> (\<exists>ys. subseq ys (map item_of entries)
                 \<and> representative_url c # member_urls c = map url ys)"
proof -
  let ?n = "length entries"
  let ?f = "\<lambda>i. item_of (entries ! i)"
  obtain kept' cl' R where st:
    "foldl (outer_step similar item_of thr entries) ([], [], {}) [0 ..< ?n] = (kept', cl', R)"
    by (rule prod_cases3)
  have kc: "kept' = kept" "cl' = cl"
    using res st by (simp_all add: similarity_loop_def)
  have inv: "similarity_inv similar item_of entries ?n (kept, cl, R)"
    using similarity_inv_fold[of ?n entries similar item_of thr] st kc by simp
  have k: "kept = map ?f (filter (\<lambda>i. i \<notin> R) [0 ..< ?n])"
    using inv by (simp add: similarity_inv_def)
  have r: "\<forall>i<?n. i \<notin> R \<longrightarrow>
      (\<forall>j. i < j \<and> j < ?n \<and> similar (entries ! i) (entries ! j) \<longrightarrow> j \<in> R)"
    using inv by (simp add: similarity_inv_def)
  have c: "\<forall>c \<in> set cl. method_c c = ustr ''similarity''
        \<and> (\<exists>js. subseq js [0 ..< ?n]
              \<and> representative_url c # member_urls c = map (\<lambda>j. url (item_of (entries ! j))) js)"
    using inv by (simp add: similarity_inv_def)
  have "subseq (map ?f (filter (\<lambda>i. i \<notin> R) [0 ..< ?n])) (map ?f [0 ..< ?n])"
    by (intro subseq_map subseq_filter_left)
  then show "subseq kept (map item_of entries)"
    unfolding k map_item_of_nth .
  show "sorted_wrt (\<lambda>x y. \<not> sim x y) kept"
    if rel: "\<forall>a \<in> set entries. \<forall>b \<in> set entries. similar a b = sim (item_of a) (item_of b)"
  proof -
    have s: "sorted_wrt (<) (filter (\<lambda>i. i \<notin> R) [0 ..< ?n])"
      by (intro sorted_wrt_filter) simp
    have "sorted_wrt (\<lambda>x y. \<not> sim (?f x) (?f y)) (filter (\<lambda>i. i \<notin> R) [0 ..< ?n])"
    proof (rule sorted_wrt_mono_rel[OF _ s])
      fix x y assume x: "x \<in> set (filter (\<lambda>i. i \<notin> R) [0 ..< ?n])"
        and y: "y \<in> set (filter (\<lambda>i. i \<notin> R) [0 ..< ?n])" and xy: "x < y"
      have xb: "x < ?n" "x \<notin> R" and yb: "y < ?n" "y \<notin> R" using x y by auto
      have "\<not> similar (entries ! x) (entries ! y)"
        using r xb yb xy by blast
      moreover have "entries ! x \<in> set entries" "entries ! y \<in> set entries"
        using xb yb by simp_all
      ultimately show "\<not> sim (?f x) (?f y)" using rel by simp
    qed
    then show ?thesis unfolding k by (simp add: sorted_wrt_map)
  qed
  show "\<forall>c \<in> set cl. method_c c = ustr ''similarity''
           \<and> (\<exists>ys. subseq ys (map item_of entries)
                 \<and> representative_url c # member_urls c = map url ys)"
  proof
    fix d assume din: "d \<in> set cl"
    have dd: "method_c d = ustr ''similarity''
        \<and> (\<exists>js. subseq js [0 ..< ?n]
              \<and> representative_url d # member_urls d = map (\<lambda>j. url (item_of (entries ! j))) js)"
      using c din by (rule bspec)
    then have m: "method_c d = ustr ''similarity''" by (rule conjunct1)
    from dd obtain js where js: "subseq js [0 ..< ?n]"
        "representative_url d # member_urls d = map (\<lambda>j. url (item_of (entries ! j))) js"
      by (elim conjE exE)
    have "subseq (map ?f js) (map ?f [0 ..< ?n])" using js(1) by (rule subseq_map)
    then have a: "subseq (map ?f js) (map item_of entries)" unfolding map_item_of_nth .
    have b: "representative_url d # member_urls d = map url (map ?f js)"
      using js(2) by simp
    have "\<exists>ys. subseq ys (map item_of entries)
                 \<and> representative_url d # member_urls d = map url ys"
      using a b by (intro exI[of _ "map ?f js"]) simp
    then show "method_c d = ustr ''similarity''
           \<and> (\<exists>ys. subseq ys (map item_of entries)
                 \<and> representative_url d # member_urls d = map url ys)"
      using m by simp
  qed
qed

lemma subseq_set_distinct:
  "subseq xs ys \<Longrightarrow> set xs \<subseteq> set ys \<and> (distinct ys \<longrightarrow> distinct xs)"
  by (induction rule: list_emb.induct) auto

lemma subseq_distinct_map:
  assumes "subseq xs ys" and "distinct (map f ys)"
  shows "distinct (map f xs)"
  using subseq_set_distinct[OF subseq_map[OF assms(1), of f]] assms(2) by simp

lemma simhash_entries:
  "map fst (concat (map (\<lambda>item.
        (let title_norm = normalize_title L (title item)
         in if title_norm \<noteq> [] then [(item, simhash_value L title_norm)] else [])) items))
     = filter (\<lambda>item. normalize_title L (title item) \<noteq> []) items"
  by (induction items) (simp_all add: Let_def)

lemma simhash_entries_snd:
  "e \<in> set (concat (map (\<lambda>item.
        (let title_norm = normalize_title L (title item)
         in if title_norm \<noteq> [] then [(item, simhash_value L title_norm)] else [])) items))
     \<Longrightarrow> snd e = simhash_value L (normalize_title L (title (fst e)))"
  by (induction items) (auto simp: Let_def split: if_splits)

lemma similarity_dedup_props:
  assumes res: "similarity_dedup L sa thr items = (kept, cl)"
  shows "subseq kept items"
    and "sorted_wrt (\<lambda>x y. \<not> items_similar L sa thr x y) kept"
    and "\<forall>c \<in> set cl. method_c c = ustr ''similarity''
           \<and> (\<exists>ys. subseq ys items \<and> representative_url c # member_urls c = map url ys)"
proof -
  consider (short) "length items \<le> 1"
    | (simhash) "\<not> length items \<le> 1" "sa"
    | (simple) "\<not> length items \<le> 1" "\<not> sa"
    by blast
  then have "subseq kept items
      \<and> sorted_wrt (\<lambda>x y. \<not> items_similar L sa thr x y) kept
      \<and> (\<forall>c \<in> set cl. method_c c = ustr ''similarity''
           \<and> (\<exists>ys. subseq ys items \<and> representative_url c # member_urls c = map url ys))"
  proof cases
    case short
    then have k: "kept = items" "cl = []" using res by (simp_all add: similarity_dedup_def)
    have "sorted_wrt (\<lambda>x y. \<not> items_similar L sa thr x y) items"
      using short by (cases items) simp_all
    then show ?thesis using k by simp
  next
    case simhash
    define hashes where "hashes = concat (map (\<lambda>item.
        (let title_norm = normalize_title L (title item)
         in if title_norm \<noteq> [] then [(item, simhash_value L title_norm)] else [])) items)"
    have loop: "similarity_loop
        (\<lambda>(item_i, hash_i) (item_j, hash_j). simhash_similar thr hash_i hash_j) fst thr hashes
        = (kept, cl)"
      using res simhash by (simp add: similarity_dedup_def simhash_dedup_def hashes_def)
    have sub: "subseq (map fst hashes) items"
      unfolding hashes_def simhash_entries by simp
    have rel: "\<forall>a \<in> set hashes. \<forall>b \<in> set hashes.
        (case a of (item_i, hash_i) \<Rightarrow> \<lambda>(item_j, hash_j). simhash_similar thr hash_i hash_j) b
          = items_similar L sa thr (fst a) (fst b)"
    proof (intro ballI)
      fix a b assume "a \<in> set hashes" "b \<in> set hashes"
      then have "snd a = simhash_value L (normalize_title L (title (fst a)))"
        "snd b = simhash_value L (normalize_title L (title (fst b)))"
        unfolding hashes_def by (simp_all add: simhash_entries_snd)
      then show "(case a of (item_i, hash_i) \<Rightarrow> \<lambda>(item_j, hash_j). simhash_similar thr hash_i hash_j) b
          = items_similar L sa thr (fst a) (fst b)"
        using simhash(2) by (cases a; cases b) (simp add: items_similar_def)
    qed
    note p = similarity_loop_props[OF loop]
    have a: "subseq kept items" using p(1) sub by (rule subseq_order.trans)
    have b: "sorted_wrt (\<lambda>x y. \<not> items_similar L sa thr x y) kept"
      using p(2)[of "items_similar L sa thr"] rel by simp
    have c: "\<forall>c \<in> set cl. method_c c = ustr ''similarity''
           \<and> (\<exists>ys. subseq ys items \<and> representative_url c # member_urls c = map url ys)"
    proof
      fix d assume "d \<in> set cl"
      with p(3) have dd: "method_c d = ustr ''similarity''
           \<and> (\<exists>ys. subseq ys (map fst hashes) \<and> representative_url d # member_urls d = map url ys)"
        by (rule bspec)
      then obtain ys where ys: "subseq ys (map fst hashes)"
        "representative_url d # member_urls d = map url ys"
        by (elim conjE exE)
      have "subseq ys items" using ys(1) sub by (rule subseq_order.trans)
      then have "\<exists>ys. subseq ys items \<and> representative_url d # member_urls d = map url ys"
        using ys(2) by (intro exI[of _ ys]) simp
      then show "method_c d = ustr ''similarity''
           \<and> (\<exists>ys. subseq ys items \<and> representative_url d # member_urls d = map url ys)"
        using dd by simp
    qed
    show ?thesis using a b c by simp
  next
    case simple
    define tokenized where
      "tokenized = map (\<lambda>item. (item, set (py_split L (normalize_title L (title item))))) items"
    have loop: "similarity_loop
        (\<lambda>(item_i, tokens_i) (item_j, tokens_j). jaccard_similar thr tokens_i tokens_j) fst thr tokenized
        = (kept, cl)"
      using res simple by (simp add: similarity_dedup_def simple_similarity_dedup_def tokenized_def)
    have sub: "map fst tokenized = items"
      unfolding tokenized_def by (simp add: comp_def)
    have rel: "\<forall>a \<in> set tokenized. \<forall>b \<in> set tokenized.
        (case a of (item_i, tokens_i) \<Rightarrow> \<lambda>(item_j, tokens_j). jaccard_similar thr tokens_i tokens_j) b
          = items_similar L sa thr (fst a) (fst b)"
      using simple(2) unfolding tokenized_def by (auto simp: items_similar_def)
    note p = similarity_loop_props[OF loop]
    have a: "subseq kept items" using p(1) sub by simp
    have b: "sorted_wrt (\<lambda>x y. \<not> items_similar L sa thr x y) kept"
      using p(2)[of "items_similar L sa thr"] rel by simp
    have c: "\<forall>c \<in> set cl. method_c c = ustr ''similarity''
           \<and> (\<exists>ys. subseq ys items \<and> representative_url c # member_urls c = map url ys)"
      using p(3) unfolding sub .
    show ?thesis using a b c by simp
  qed
  then show "subseq kept items"
    and "sorted_wrt (\<lambda>x y. \<not> items_similar L sa thr x y) kept"
    and "\<forall>c \<in> set cl. method_c c = ustr ''similarity''
           \<and> (\<exists>ys. subseq ys items \<and> representative_url c # member_urls c = map url ys)"
    by simp_all
qed

text \<open>\<open>_simhash_dedup\<close> keeps only items whose normalized title is not empty: the
  others never enter \<open>hashes\<close>, the list the loop runs over.\<close>

lemma simhash_dedup_kept_titled:
  assumes "x \<in> set (fst (simhash_dedup L thr items))"
  shows "normalize_title L (title x) \<noteq> []"
proof -
  let ?hashes = "concat (map (\<lambda>item.
        (let title_norm = normalize_title L (title item)
         in if title_norm \<noteq> [] then [(item, simhash_value L title_norm)] else [])) items)"
  obtain kept cl where res:
    "similarity_loop (\<lambda>(item_i, hash_i) (item_j, hash_j). simhash_similar thr hash_i hash_j)
       fst thr ?hashes = (kept, cl)"
    by (rule prod.exhaust)
  have k: "fst (simhash_dedup L thr items) = kept"
    using res by (simp add: simhash_dedup_def)
  have "subseq kept (map fst ?hashes)" by (rule similarity_loop_props(1)[OF res])
  then have "subseq kept (filter (\<lambda>item. normalize_title L (title item) \<noteq> []) items)"
    by (simp only: simhash_entries)
  then have "set kept \<subseteq> set (filter (\<lambda>item. normalize_title L (title item) \<noteq> []) items)"
    by (rule subseq_set_distinct[THEN conjunct1])
  then show ?thesis using assms k by auto
qed

subsection \<open>Validation and the fallback record\<close>

lemma fallback_lookups:
  fixes s :: ustring
  defines "kvs \<equiv>
       [(ustr ''event_type'', JString (ustr ''other'')),
        (ustr ''impact_direction'', JString (ustr ''neutral'')),
        (ustr ''impact_horizon'', JString (ustr ''short'')),
        (ustr ''thesis_relation'', JString (ustr ''unrelated'')),
        (ustr ''confidence'', JString (ustr ''low'')),
        (ustr ''confidence_reason'', JString (ustr ''Analysis failed, using fallback'')),
        (ustr ''summary'', JString s),
        (ustr ''key_facts'', JArray []),
        (ustr ''watch_next'', JString [])]"
  shows "map_of kvs (ustr ''event_type'') = Some (JString (ustr ''other''))"
    and "map_of kvs (ustr ''impact_direction'') = Some (JString (ustr ''neutral''))"
    and "map_of kvs (ustr ''impact_horizon'') = Some (JString (ustr ''short''))"
    and "map_of kvs (ustr ''thesis_relation'') = Some (JString (ustr ''unrelated''))"
    and "map_of kvs (ustr ''confidence'') = Some (JString (ustr ''low''))"
    and "map_of kvs (ustr ''confidence_reason'')
           = Some (JString (ustr ''Analysis failed, using fallback''))"
    and "map_of kvs (ustr ''summary'') = Some (JString s)"
    and "map_of kvs (ustr ''key_facts'') = Some (JArray [])"
    and "map_of kvs (ustr ''watch_next'') = Some (JString [])"
  by (simp_all add: kvs_def ustr_def)

lemma fallback_literals:
  "literal_ok EVENT_TYPES (Some (JString (ustr ''other'')))"
  "literal_ok IMPACT_DIRECTIONS (Some (JString (ustr ''neutral'')))"
  "literal_ok IMPACT_HORIZONS (Some (JString (ustr ''short'')))"
  "literal_ok THESIS_RELATIONS (Some (JString (ustr ''unrelated'')))"
  "literal_ok CONFIDENCES (Some (JString (ustr ''low'')))"
  by (simp_all add: literal_ok_def EVENT_TYPES_def IMPACT_DIRECTIONS_def IMPACT_HORIZONS_def
      THESIS_RELATIONS_def CONFIDENCES_def)

lemma fallback_reason:
  "validate_confidence_reason L (JString (ustr ''Analysis failed, using fallback''))
     = ustr ''Analysis failed, using fallback''"
  "str_is_unicode (ustr ''Analysis failed, using fallback'')"
  "validate_watch_next L (JString []) = []"
  "str_is_unicode []"
  "validate_key_facts L (JArray []) = Inr []"
  by (simp_all add: validate_confidence_reason_def validate_watch_next_def validate_key_facts_def
      py_str_def str_is_unicode_def is_surrogate_def ustr_def)

lemma fallback_summary:
  "validate_summary L (JString (if t \<noteq> [] then take 100 t else ustr ''No summary''))
     = (if t \<noteq> [] then take 100 t else ustr ''No summary'')"
  "str_is_unicode (ustr ''No summary'')"
  by (simp_all add: validate_summary_def py_str_def str_is_unicode_def is_surrogate_def ustr_def)

lemma fallback_result_cases:
  "fallback_result P L news =
     (if str_is_unicode (take 100 (title_n news))
      then Inr \<lparr>event_type = ustr ''other'', impact_direction = ustr ''neutral'',
                impact_horizon = ustr ''short'', thesis_relation = ustr ''unrelated'',
                confidence = ustr ''low'',
                confidence_reason = ustr ''Analysis failed, using fallback'',
                summary_a = (if title_n news \<noteq> [] then take 100 (title_n news)
                             else ustr ''No summary''),
                key_facts = [], watch_next = []\<rparr>
      else Inl (ValidationError (validation_error_str P
             (JObject
                [(ustr ''event_type'', JString (ustr ''other'')),
                 (ustr ''impact_direction'', JString (ustr ''neutral'')),
                 (ustr ''impact_horizon'', JString (ustr ''short'')),
                 (ustr ''thesis_relation'', JString (ustr ''unrelated'')),
                 (ustr ''confidence'', JString (ustr ''low'')),
                 (ustr ''confidence_reason'', JString (ustr ''Analysis failed, using fallback'')),
                 (ustr ''summary'', JString (take 100 (title_n news))),
                 (ustr ''key_facts'', JArray []),
                 (ustr ''watch_next'', JString [])]))))"
proof -
  let ?s = "if title_n news \<noteq> [] then take 100 (title_n news) else ustr ''No summary''"
  have u: "str_is_unicode ?s \<longleftrightarrow> str_is_unicode (take 100 (title_n news))"
    using fallback_summary(2) fallback_reason(4) by simp
  have e: "\<not> str_is_unicode (take 100 (title_n news)) \<Longrightarrow> ?s = take 100 (title_n news)"
    using fallback_reason(4) by auto
  show ?thesis
    unfolding fallback_result_def model_validate_def json.case Let_def
      fallback_lookups option.case option.sel fallback_literals fallback_reason
      fallback_summary sum.case py_str_def
    using u e by (simp add: fallback_literals fallback_reason)
qed

lemma fallback_result_value:
  assumes "str_is_unicode (take 100 (title_n news))"
  shows "fallback_result P L news =
     Inr \<lparr>event_type = ustr ''other'', impact_direction = ustr ''neutral'',
          impact_horizon = ustr ''short'', thesis_relation = ustr ''unrelated'',
          confidence = ustr ''low'',
          confidence_reason = ustr ''Analysis failed, using fallback'',
          summary_a = (if title_n news \<noteq> [] then take 100 (title_n news)
                       else ustr ''No summary''),
          key_facts = [], watch_next = []\<rparr>"
  using assms by (simp only: fallback_result_cases if_True)

lemma braces_parse:
  "parse_and_validate braces_provider braces_lib (ustr ''{}'') = Inl (ValidationError [])"
  by code_simp

lemma braces_format:
  "format_prompt braces_provider braces_lib news thesis = Inr (ustr ''Analyze'')"
  by (simp add: format_prompt_def braces_provider_def)

lemma validate_key_facts_ok:
  "\<not> isl (validate_key_facts L v) \<longleftrightarrow> v = JNull \<or> (\<exists>xs. v = JArray xs) \<or> (\<exists>s. v = JString s)"
  by (cases v) (simp_all add: validate_key_facts_def)

lemma validate_key_facts_lengths:
  assumes "validate_key_facts L v = Inr facts"
  shows "length facts \<le> 3 \<and> (\<forall>f \<in> set facts. length f \<le> 200)"
  using assms by (cases v) (auto simp: validate_key_facts_def split: if_splits)

lemma validate_key_facts_raises:
  "validate_key_facts L v = Inl e \<Longrightarrow> e = TypeError"
  by (cases v) (auto simp: validate_key_facts_def split: if_splits)

lemma long_answer_lookups:
  "map_of long_answer (ustr ''event_type'') = Some (JString (ustr ''earnings''))"
  "map_of long_answer (ustr ''impact_direction'') = Some (JString (ustr ''bullish''))"
  "map_of long_answer (ustr ''impact_horizon'') = Some (JString (ustr ''short''))"
  "map_of long_answer (ustr ''thesis_relation'') = Some (JString (ustr ''supports''))"
  "map_of long_answer (ustr ''confidence'') = Some (JString (ustr ''high''))"
  "map_of long_answer (ustr ''confidence_reason'') = Some (JString (ustr ''filing''))"
  "map_of long_answer (ustr ''summary'') = Some (JString (replicate 150 97))"
  "map_of long_answer (ustr ''key_facts'') = None"
  "map_of long_answer (ustr ''watch_next'') = None"
  by (simp_all add: long_answer_def enums_only_def ustr_def)

lemma long_answer_literals:
  "literal_ok EVENT_TYPES (Some (JString (ustr ''earnings'')))"
  "literal_ok IMPACT_DIRECTIONS (Some (JString (ustr ''bullish'')))"
  "literal_ok IMPACT_HORIZONS (Some (JString (ustr ''short'')))"
  "literal_ok THESIS_RELATIONS (Some (JString (ustr ''supports'')))"
  "literal_ok CONFIDENCES (Some (JString (ustr ''high'')))"
  by (simp_all add: literal_ok_def EVENT_TYPES_def IMPACT_DIRECTIONS_def IMPACT_HORIZONS_def
      THESIS_RELATIONS_def CONFIDENCES_def)

lemma long_answer_strings:
  "validate_confidence_reason L (JString (ustr ''filing'')) = ustr ''filing''"
  "str_is_unicode (ustr ''filing'')"
  "validate_summary L (JString (replicate 150 97)) = replicate 100 97"
  "str_is_unicode (replicate 100 97)"
  by (simp_all add: validate_confidence_reason_def validate_summary_def py_str_def
      str_is_unicode_def is_surrogate_def ustr_def list_ex_iff)

section \<open>Claims about the rate limiter\<close>

text \<open>
  Claim C2, as amended. When every attempt up to and including attempt \<open>max_retries\<close>
  fails with a retryable failure (HTTP 429, HTTP 500/502/503/504, connect error or
  timeout), \<open>RateLimiter.execute\<close> raises a \<open>RateLimitError\<close> carrying the
  \<open>Retry-After\<close> value parsed from the last response only when the last failure was
  an HTTP 429; when the last failure was a 5xx response or a network error, it
  re-raises that original exception.
\<close>

theorem execute_exhausted:
  assumes "api_name \<in> set limiters"
    and "\<forall>n \<le> m. \<exists>e. func n = Inl e \<and> retryable e"
  shows "fst (execute L limiters api_name func jitter (int m))
           = Inl (exhausted_error L (projl (func m)))"
proof -
  have "nat (int m + 1) = Suc m" by simp
  then show ?thesis
    unfolding execute_def
    using execute_attempts_exhausted[OF assms(1), of 0 m func L jitter "[]" None] assms(2)
    by simp
qed

theorem execute_exhausted_witness:
  "fst (execute ascii_lib [ustr ''finnhub''] (ustr ''finnhub'')
         (\<lambda>n. Inl (HTTPStatusError 429 (Some (ustr ''2''))) :: exn + unit) (\<lambda>n. 1) 3)
     = Inl (RateLimitError (Some 2))"
  using execute_exhausted[of "ustr ''finnhub''" "[ustr ''finnhub'']" 3
      "\<lambda>n. Inl (HTTPStatusError 429 (Some (ustr ''2''))) :: exn + unit" ascii_lib "\<lambda>n. 1"]
  by (simp add: parse_retry_after_def ascii_lib_def digits_float_def ustr_def)

text \<open>
  Claim C2 as stated fails: with the default \<open>max_retries = 3\<close> and an operation that
  answers HTTP 503 every time, \<open>execute\<close> raises the \<open>HTTPStatusError\<close> of the last
  response, not a \<open>RateLimitError\<close>.
\<close>

theorem execute_exhausted_503_reraises:
  "fst (execute ascii_lib [ustr ''finnhub''] (ustr ''finnhub'')
         (\<lambda>n. Inl (HTTPStatusError 503 None) :: exn + unit) (\<lambda>n. 1) 3)
     = Inl (HTTPStatusError 503 None)"
  by (simp add: execute_def upt_rec)

text \<open>
  Claim C4, as amended. Let attempt \<open>a\<close>, with \<open>a < max_retries\<close>, and every attempt
  before it fail with a retryable failure, and let the jitter draw \<open>j\<close> of attempt \<open>a\<close>
  lie in \<open>[0.75, 1.25]\<close>. Then \<open>execute\<close> sleeps after attempt \<open>a\<close>, and the duration it
  passes to \<open>asyncio.sleep\<close> is \<open>min(60, 2^a * j)\<close> when the failure gave no
  \<open>Retry-After\<close> value (a 5xx response, a network error, or a 429 response without a
  header that \<open>float\<close> reads) and \<open>min(60, max(2^a * j, retry_after))\<close> when a 429
  response carried \<open>Retry-After = retry_after\<close>: the 60 second cap is applied last.
  This equals \<open>max(min(60, 2^a * j), retry_after)\<close> when \<open>retry_after \<le> 60\<close>, and the
  sleep is at least \<open>min(retry_after, 60)\<close>.
\<close>

theorem execute_sleep_capped:
  assumes "api_name \<in> set limiters"
    and "int a < max_retries"
    and "\<forall>n \<le> a. \<exists>e. func n = Inl e \<and> retryable e"
    and "0.75 \<le> jitter a" and "jitter a \<le> 1.25"
  shows "a < length (snd (execute L limiters api_name func jitter max_retries))
       \<and> (backoff_retry_after L (projl (func a)) = None \<longrightarrow>
            snd (execute L limiters api_name func jitter max_retries) ! a
              = min 60 (2 ^ a * jitter a))
       \<and> (\<forall>retry_after. backoff_retry_after L (projl (func a)) = Some retry_after \<longrightarrow>
            snd (execute L limiters api_name func jitter max_retries) ! a
              = min 60 (max (2 ^ a * jitter a) retry_after)
            \<and> (retry_after \<le> 60 \<longrightarrow>
                 snd (execute L limiters api_name func jitter max_retries) ! a
                   = max (min 60 (2 ^ a * jitter a)) retry_after)
            \<and> min retry_after 60 \<le> snd (execute L limiters api_name func jitter max_retries) ! a)"
proof -
  have n: "a < nat (max_retries + 1)" using assms(2) by simp
  have all: "\<forall>i. 0 \<le> i \<and> i \<le> a \<longrightarrow> (\<exists>e. func i = Inl e \<and> retryable e)"
    using assms(3) by simp
  have pos: "0 < jitter a" using assms(4) by simp
  from execute_attempts_sleeps[where L = L and jitter = jitter and sleeps = "[]"
      and last_error = None and k = 0, OF assms(1) _ n assms(2) all]
  have len: "a < length (snd (execute L limiters api_name func jitter max_retries))"
    and val: "snd (execute L limiters api_name func jitter max_retries) ! a
                = calculate_backoff a (jitter a) (backoff_retry_after L (projl (func a)))"
    by (simp_all add: execute_def)
  show ?thesis
    using len val calculate_backoff_formula[OF pos, of a]
    by (auto simp: min_def max_def)
qed

theorem execute_sleep_capped_witness:
  "snd (execute ascii_lib [ustr ''finnhub''] (ustr ''finnhub'')
         (\<lambda>n. Inl (HTTPStatusError 429 (Some (ustr ''5''))) :: exn + unit) (\<lambda>n. 1) 3) ! 1 = 5
   \<and> backoff_retry_after ascii_lib (HTTPStatusError 429 (Some (ustr ''5''))) = Some 5
   \<and> max (min 60 (2 ^ 1 * 1)) (5::real) = 5"
proof -
  have r: "backoff_retry_after ascii_lib (HTTPStatusError 429 (Some (ustr ''5''))) = Some 5"
    by (simp add: parse_retry_after_def ascii_lib_def digits_float_def ustr_def)
  have m: "ustr ''finnhub'' \<in> set [ustr ''finnhub'']" by simp
  show ?thesis
    using r execute_sleep_capped[where a = 1 and max_retries = 3 and L = ascii_lib
        and func = "\<lambda>n. Inl (HTTPStatusError 429 (Some (ustr ''5''))) :: exn + unit"
        and jitter = "\<lambda>n. 1", OF m]
    by simp
qed

text \<open>
  Claim C4 as stated fails when \<open>Retry-After\<close> exceeds 60 seconds: when every response
  is a 429 with \<open>Retry-After: 120\<close> and the jitter is 1, \<open>execute\<close> sleeps 60 seconds
  after each of the attempts 0, 1 and 2, which is neither
  \<open>max(min(60, 1), 120) = 120\<close> nor at least \<open>retry_after\<close>.
\<close>

theorem execute_sleep_retry_after_120:
  "snd (execute ascii_lib [ustr ''finnhub''] (ustr ''finnhub'')
         (\<lambda>n. Inl (HTTPStatusError 429 (Some (ustr ''120''))) :: exn + unit) (\<lambda>n. 1) 3)
     = [60, 60, 60]
   \<and> backoff_retry_after ascii_lib (HTTPStatusError 429 (Some (ustr ''120''))) = Some 120
   \<and> max (min 60 (2 ^ 0 * 1)) (120::real) = 120"
  by (simp add: execute_def upt_rec calculate_backoff_def parse_retry_after_def ascii_lib_def
      digits_float_def ustr_def)

section \<open>Claims about the pipeline\<close>




text \<open>A run that is cancelled while the watchlist is loaded records nothing.\<close>

lemma run_cancelled_records_nothing:
  "returned (run cancelled_world) = Inl Interrupt
   \<and> recorded (run cancelled_world) = None"
  by (simp add: run_def run_body_def cancelled_world_def degraded_world_def)

section \<open>Claims about the deduplicator's normal forms\<close>

text \<open>
  What holds of \<open>normalize_title\<close> on every input. Every character of the output is
  a single space or a word character of the regular expression class \<open>\w\<close>
  (alphanumeric, or the underscore) that is not whitespace; the output has no two
  consecutive spaces and neither starts nor ends with a space. For an input of ASCII
  characters the output contains only characters from \<open>[a-z0-9_ ]\<close>.
\<close>

lemma normalize_title_shape:
  "(\<forall>c \<in> set (normalize_title L t). c = 32 \<or> (is_word L c \<and> \<not> py_isspace L c))
   \<and> \<not> sublist [32, 32] (normalize_title L t)
   \<and> (normalize_title L t \<noteq> [] \<longrightarrow>
        hd (normalize_title L t) \<noteq> 32 \<and> last (normalize_title L t) \<noteq> 32)
   \<and> (list_all is_ascii t \<longrightarrow>
        (\<forall>c \<in> set (normalize_title L t).
           c = 32 \<or> c = 95 \<or> ascii_digit c \<or> ascii_lower_letter c))"
proof (cases "t = []")
  case True
  then show ?thesis by (simp add: normalize_title_def)
next
  case False
  define t2 where "t2 = py_lower L (py_nfkc L t)"
  define t3 where "t3 = map (\<lambda>c. if is_word L c \<or> py_isspace L c then c else 32) t2"
  define ws where "ws = py_split L t3"
  have out: "normalize_title L t = join [32] ws"
    using False by (simp add: normalize_title_def Let_def t2_def t3_def ws_def ustr_def)
  have w: "\<forall>w \<in> set ws. w \<noteq> [] \<and> (\<forall>c \<in> set w. \<not> py_isspace L c \<and> c \<in> set t3)"
    using split_whitespace_words[of "[]" L _ t3] unfolding ws_def py_split_def by auto
  then have w32: "\<forall>w \<in> set ws. w \<noteq> [] \<and> 32 \<notin> set w"
    using py_isspace_space by blast
  note shape = join_space_shape[OF w32]
  have chars: "\<forall>c \<in> set (join [32] ws). c = 32 \<or> (c \<in> set t3 \<and> \<not> py_isspace L c)"
    using shape w by blast
  have t3w: "\<forall>c \<in> set t3. c = 32 \<or> is_word L c \<or> py_isspace L c"
    unfolding t3_def by auto
  have p1: "\<forall>c \<in> set (join [32] ws). c = 32 \<or> (is_word L c \<and> \<not> py_isspace L c)"
    using chars t3w by blast
  have p4: "list_all is_ascii t \<longrightarrow>
        (\<forall>c \<in> set (join [32] ws). c = 32 \<or> c = 95 \<or> ascii_digit c \<or> ascii_lower_letter c)"
  proof
    assume asc: "list_all is_ascii t"
    then have t2eq: "t2 = map ascii_lower t" by (simp add: t2_def py_nfkc_def py_lower_def)
    have t3a: "\<forall>c \<in> set t3. is_ascii c \<and> \<not> ascii_upper_letter c"
      unfolding t3_def t2eq using asc
      by (auto simp: ascii_lower_def ascii_upper_letter_def is_ascii_def list_all_iff)
    show "\<forall>c \<in> set (join [32] ws). c = 32 \<or> c = 95 \<or> ascii_digit c \<or> ascii_lower_letter c"
    proof
      fix c assume "c \<in> set (join [32] ws)"
      then consider "c = 32" | "c \<in> set t3" "is_word L c" using chars p1 by blast
      then show "c = 32 \<or> c = 95 \<or> ascii_digit c \<or> ascii_lower_letter c"
      proof cases
        case 1 then show ?thesis by simp
      next
        case 2
        then show ?thesis using t3a by (auto simp: is_word_def py_isalnum_def)
      qed
    qed
  qed
  have p3: "join [32] ws \<noteq> [] \<longrightarrow> hd (join [32] ws) \<noteq> 32 \<and> last (join [32] ws) \<noteq> 32"
    using shape by (cases "ws = []") simp_all
  have p2: "\<not> sublist [32, 32] (join [32] ws)" using shape by simp
  show ?thesis unfolding out using p1 p2 p3 p4 by simp
qed

lemma normalize_title_shape_example:
  "list_all is_ascii (ustr ''Q4:  A_b!'')
   \<and> normalize_title ascii_lib (ustr ''Q4:  A_b!'') = ustr ''q4 a_b''
   \<and> \<not> sublist [32, 32] (normalize_title ascii_lib (ustr ''Q4:  A_b!''))
   \<and> hd (normalize_title ascii_lib (ustr ''Q4:  A_b!'')) \<noteq> 32
   \<and> last (normalize_title ascii_lib (ustr ''Q4:  A_b!'')) \<noteq> 32"
proof -
  have i: "ustr ''Q4:  A_b!'' = [81, 52, 58, 32, 32, 65, 95, 98, 33]"
    and o: "ustr ''q4 a_b'' = [113, 52, 32, 97, 95, 98]"
    by (simp_all add: ustr_def)
  have a: "list_all is_ascii [81, 52, 58, 32, 32, 65, 95, 98, 33]"
    by (simp add: is_ascii_def)
  have e: "normalize_title ascii_lib [81, 52, 58, 32, 32, 65, 95, 98, 33] = [113, 52, 32, 97, 95, 98]"
    by code_simp
  show ?thesis
    unfolding i o
    using a e normalize_title_shape[of ascii_lib "[81, 52, 58, 32, 32, 65, 95, 98, 33]"]
    by simp
qed

text \<open>
  Claim C3 says that the output of \<open>normalize_title\<close> contains only characters from
  \<open>[a-z0-9 ]\<close>, every other character being replaced by a space. The comment of the
  substitution says the same: punctuation is removed, letters, digits and spaces
  are kept. The pattern \<open>[^\w\s]\<close> does not do that for the underscore, which is a
  word character: the title \<open>a_b\<close> is returned unchanged, where the claim gives
  \<open>a b\<close>.
\<close>

theorem normalize_title_keeps_underscore:
  "normalize_title ascii_lib (ustr ''a_b'') = ustr ''a_b''
   \<and> 95 \<in> set (normalize_title ascii_lib (ustr ''a_b''))
   \<and> \<not> (95 = (32::nat) \<or> ascii_digit 95 \<or> ascii_lower_letter 95)"
proof -
  have i: "ustr ''a_b'' = [97, 95, 98]"
    by (simp add: ustr_def)
  have e: "normalize_title ascii_lib [97, 95, 98] = [97, 95, 98]"
    by code_simp
  show ?thesis
    unfolding i e by (simp add: ascii_digit_def ascii_lower_letter_def)
qed

section \<open>Claims about the normalizer\<close>

text \<open>
  Claim C9. For every raw item, the \<open>NewsItemCreate\<close> produced by the normalizer has
  credibility \<open>high\<close> when the item's \<open>source_type\<close> is \<open>filing\<close>, whatever its
  source; otherwise its credibility is the entry of the per-source table for the
  item's source, and \<open>low\<close> when the table has no such entry.
\<close>

theorem normalize_item_credibility:
  "(source_type raw = ustr ''filing'' \<longrightarrow>
      credibility (snd (normalize_item L now raw)) = ustr ''high'')
   \<and> (source_type raw \<noteq> ustr ''filing'' \<longrightarrow>
      credibility (snd (normalize_item L now raw)) =
        (case map_of CREDIBILITY_MAP (source raw) of Some c \<Rightarrow> c | None \<Rightarrow> ustr ''low''))
   \<and> map (credibility \<circ> snd) (normalize_all L now raw_items)
        = map (\<lambda>r. determine_credibility (source r) (source_type r)) raw_items"
proof -
  have d: "the (map_of CREDIBILITY_MAP (ustr ''default'')) = ustr ''low''"
    by (simp add: CREDIBILITY_MAP_def ustr_def)
  have c: "\<And>r. credibility (snd (normalize_item L now r))
             = determine_credibility (source r) (source_type r)"
    by (simp add: normalize_item_def Let_def)
  show ?thesis
    using d by (simp add: c normalize_all_def determine_credibility_def split: option.splits)
qed

theorem normalize_item_credibility_witness:
  "source_type example_filing = ustr ''filing''
   \<and> credibility (snd (normalize_item ascii_lib example_now example_filing)) = ustr ''high''
   \<and> source_type example_blog_news \<noteq> ustr ''filing''
   \<and> credibility (snd (normalize_item ascii_lib example_now example_blog_news)) = ustr ''low''"
proof -
  have f: "source_type example_filing = ustr ''filing''"
    by (simp add: example_filing_def)
  have n: "source_type example_blog_news \<noteq> ustr ''filing''"
    by (simp add: example_blog_news_def ustr_def)
  have m: "map_of CREDIBILITY_MAP (source example_blog_news) = None"
    by (simp add: example_blog_news_def CREDIBILITY_MAP_def ustr_def)
  show ?thesis
    using f n m
      normalize_item_credibility[of example_filing ascii_lib example_now "[]"]
      normalize_item_credibility[of example_blog_news ascii_lib example_now "[]"]
    by simp
qed

section \<open>Claims about deduplication\<close>

text \<open>
  What holds of \<open>deduplicate\<close> on every input. The result satisfies
  \<open>len(kept_items) + removed_count = len(input)\<close>, and \<open>kept_items\<close> is a
  subsequence of the input: the kept items are input items in the input's relative
  order. Each kept item is the first input item with its canonical URL; the URL stage
  and the content-hash stage keep exactly the first occurrence of every key among the
  items they receive, so the kept items have pairwise different canonical URLs and
  content hashes; and no kept item is similar to a kept item before it, the earlier
  one representing the similarity group.
\<close>

lemma deduplicate_kept_subsequence:
  "int (length (kept_items (deduplicate L sa thr items)))
       + removed_count (deduplicate L sa thr items) = int (length items)
   \<and> subseq (kept_items (deduplicate L sa thr items)) items
   \<and> (\<forall>k \<in> set (kept_items (deduplicate L sa thr items)).
         \<exists>pre post. items = pre @ k # post
           \<and> (\<forall>p \<in> set pre. canonicalize_url L (url p) \<noteq> canonicalize_url L (url k)))
   \<and> fst (url_dedup L items) = first_occurrences (\<lambda>x. canonicalize_url L (url x)) [] items
   \<and> fst (hash_dedup L (fst (url_dedup L items)))
        = first_occurrences (compute_content_hash L) [] (fst (url_dedup L items))
   \<and> distinct (map (\<lambda>x. canonicalize_url L (url x)) (kept_items (deduplicate L sa thr items)))
   \<and> distinct (map (compute_content_hash L) (kept_items (deduplicate L sa thr items)))
   \<and> sorted_wrt (\<lambda>x y. \<not> items_similar L sa thr x y)
        (kept_items (deduplicate L sa thr items))"
proof (cases "items = []")
  case True
  then show ?thesis
    by (simp add: deduplicate_def url_dedup_def hash_dedup_def key_dedup_kept)
next
  case False
  let ?canon = "\<lambda>x. canonicalize_url L (url x)"
  obtain items1 cu where s1: "url_dedup L items = (items1, cu)" by (rule prod.exhaust)
  obtain items2 ch where s2: "hash_dedup L items1 = (items2, ch)" by (rule prod.exhaust)
  obtain items3 cs where s3: "similarity_dedup L sa thr items2 = (items3, cs)"
    by (rule prod.exhaust)
  have k: "kept_items (deduplicate L sa thr items) = items3"
    and r: "removed_count (deduplicate L sa thr items) = int (length items) - int (length items3)"
    using False s1 s2 s3 by (simp_all add: deduplicate_def)
  have i1: "items1 = first_occurrences ?canon [] items"
    using s1 key_dedup_kept[of ?canon "ustr ''url_exact''" items] by (simp add: url_dedup_def)
  have i2: "items2 = first_occurrences (compute_content_hash L) [] items1"
    using s2 key_dedup_kept[of "compute_content_hash L" "ustr ''hash_match''" items1]
    by (simp add: hash_dedup_def)
  note p3 = similarity_dedup_props[OF s3]
  have sub21: "subseq items2 items1" unfolding i2 by (rule first_occurrences_subseq)
  have sub10: "subseq items1 items" unfolding i1 by (rule first_occurrences_subseq)
  have sub31: "subseq items3 items1" using p3(1) sub21 by (rule subseq_order.trans)
  have sub30: "subseq items3 items" using sub31 sub10 by (rule subseq_order.trans)
  have d1: "distinct (map ?canon items1)"
    unfolding i1 using first_occurrences_distinct[of "[]" ?canon items] by simp
  have d2: "distinct (map (compute_content_hash L) items2)"
    unfolding i2 using first_occurrences_distinct[of "[]" "compute_content_hash L" items1] by simp
  have d31: "distinct (map ?canon items3)" using sub31 d1 by (rule subseq_distinct_map)
  have d32: "distinct (map (compute_content_hash L) items3)"
    using p3(1) d2 by (rule subseq_distinct_map)
  have first: "\<forall>k \<in> set items3. \<exists>pre post. items = pre @ k # post
           \<and> (\<forall>p \<in> set pre. canonicalize_url L (url p) \<noteq> canonicalize_url L (url k))"
  proof
    fix x assume "x \<in> set items3"
    then have "x \<in> set items1" using subseq_set_distinct[OF sub31] by auto
    then have "x \<in> set (first_occurrences ?canon [] items)" by (simp add: i1)
    from first_occurrences_first[OF this]
    show "\<exists>pre post. items = pre @ x # post
           \<and> (\<forall>p \<in> set pre. canonicalize_url L (url p) \<noteq> canonicalize_url L (url x))"
      by simp
  qed
  have s1f: "fst (url_dedup L items) = items1" by (simp add: s1)
  have s2f: "fst (hash_dedup L items1) = items2" by (simp add: s2)
  show ?thesis
    unfolding k r s1f s2f
    using sub30 first i1 i2 d31 d32 p3(2) by simp
qed

lemma deduplicate_kept_subsequence_example:
  "kept_items (deduplicate ascii_lib False (85/100) example_items)
     = [raw_item ''finnhub'' ''http://a.io/1?ref=x'' ''Nvidia Q4!'',
        raw_item ''finnhub'' ''http://a.io/3'' ''AMD GPU'']
   \<and> removed_count (deduplicate ascii_lib False (85/100) example_items) = 3
   \<and> length example_items = 5
   \<and> subseq (kept_items (deduplicate ascii_lib False (85/100) example_items)) example_items"
proof -
  have a: "kept_items (deduplicate ascii_lib False (85/100) example_items)
     = [raw_item ''finnhub'' ''http://a.io/1?ref=x'' ''Nvidia Q4!'',
        raw_item ''finnhub'' ''http://a.io/3'' ''AMD GPU'']"
    by code_simp
  have b: "length example_items = 5" by (simp add: example_items_def)
  show ?thesis
    using a b deduplicate_kept_subsequence[of ascii_lib False "85/100" example_items]
    by simp
qed

text \<open>
  Claim C7 says that the result has \<open>len(kept_items) + removed_count = len(input)\<close>
  and that \<open>kept_items\<close> is a subsequence of the input in which each canonical-URL,
  content-hash and similarity group is represented by its first occurrence. The length
  equation and the subsequence hold on every input (\<open>deduplicate_kept_subsequence\<close>),
  and so does the representation by the first occurrence in the URL stage, in the hash
  stage and in \<open>_simple_similarity_dedup\<close>. In \<open>_simhash_dedup\<close> it fails: an item
  whose normalized title is empty never enters \<open>hashes\<close>
  (\<open>simhash_dedup_kept_titled\<close>), so it is neither kept nor listed in a cluster, though
  no item represents it. On \<open>untitled_items\<close> the item without a headline is lost with
  SimHash available, counted in \<open>removed_count\<close> with no cluster, and kept by the
  Jaccard path.
\<close>

theorem deduplicate_drops_untitled_item:
  "kept_items (deduplicate ascii_lib True (85/100) untitled_items)
     = [raw_item ''finnhub'' ''http://a.io/2'' ''AMD GPU'']
   \<and> removed_count (deduplicate ascii_lib True (85/100) untitled_items) = 1
   \<and> clusters (deduplicate ascii_lib True (85/100) untitled_items) = []
   \<and> kept_items (deduplicate ascii_lib False (85/100) untitled_items) = untitled_items"
  by code_simp

text \<open>
  Claim C8. The clusters of a result are those of the URL stage, then those of the
  content-hash stage, then those of the similarity stage, with the methods
  \<open>url_exact\<close>, \<open>hash_match\<close> and \<open>similarity\<close>. Every cluster with method
  \<open>similarity\<close> lists the URLs of input items that survived the two exact stages:
  these items have pairwise different canonical URLs and pairwise different content
  hashes, so no two of them are exact duplicates.
\<close>

theorem similarity_clusters_not_exact:
  "(\<exists>cu ch cs. clusters (deduplicate L sa thr items) = cu @ ch @ cs
       \<and> (\<forall>c \<in> set cu. method_c c = ustr ''url_exact'')
       \<and> (\<forall>c \<in> set ch. method_c c = ustr ''hash_match'')
       \<and> (\<forall>c \<in> set cs. method_c c = ustr ''similarity''))
   \<and> (\<forall>c \<in> set (clusters (deduplicate L sa thr items)).
         method_c c = ustr ''similarity'' \<longrightarrow>
           (\<exists>ys. representative_url c # member_urls c = map url ys
                \<and> subseq ys items
                \<and> distinct (map (\<lambda>x. canonicalize_url L (url x)) ys)
                \<and> distinct (map (compute_content_hash L) ys)))"
proof (cases "items = []")
  case True
  then have "clusters (deduplicate L sa thr items) = []" by (simp add: deduplicate_def)
  then show ?thesis by simp
next
  case False
  let ?canon = "\<lambda>x. canonicalize_url L (url x)"
  obtain items1 cu where s1: "url_dedup L items = (items1, cu)" by (rule prod.exhaust)
  obtain items2 ch where s2: "hash_dedup L items1 = (items2, ch)" by (rule prod.exhaust)
  obtain items3 cs where s3: "similarity_dedup L sa thr items2 = (items3, cs)"
    by (rule prod.exhaust)
  have cl: "clusters (deduplicate L sa thr items) = cu @ ch @ cs"
    using False s1 s2 s3 by (simp add: deduplicate_def)
  have mu: "\<forall>c \<in> set cu. method_c c = ustr ''url_exact''"
    using s1 key_dedup_method[of _ ?canon "ustr ''url_exact''" items] by (simp add: url_dedup_def)
  have mh: "\<forall>c \<in> set ch. method_c c = ustr ''hash_match''"
    using s2 key_dedup_method[of _ "compute_content_hash L" "ustr ''hash_match''" items1]
    by (simp add: hash_dedup_def)
  note p3 = similarity_dedup_props[OF s3]
  have ms: "\<forall>c \<in> set cs. method_c c = ustr ''similarity''" using p3(3) by simp
  have i1: "items1 = first_occurrences ?canon [] items"
    using s1 key_dedup_kept[of ?canon "ustr ''url_exact''" items] by (simp add: url_dedup_def)
  have i2: "items2 = first_occurrences (compute_content_hash L) [] items1"
    using s2 key_dedup_kept[of "compute_content_hash L" "ustr ''hash_match''" items1]
    by (simp add: hash_dedup_def)
  have sub21: "subseq items2 items1" unfolding i2 by (rule first_occurrences_subseq)
  have sub10: "subseq items1 items" unfolding i1 by (rule first_occurrences_subseq)
  have d1: "distinct (map ?canon items1)"
    unfolding i1 using first_occurrences_distinct[of "[]" ?canon items] by simp
  have d2: "distinct (map (compute_content_hash L) items2)"
    unfolding i2 using first_occurrences_distinct[of "[]" "compute_content_hash L" items1] by simp
  have ne: "ustr ''url_exact'' \<noteq> ustr ''similarity''" "ustr ''hash_match'' \<noteq> ustr ''similarity''"
    by (simp_all add: ustr_def)
  have part1: "\<exists>cu ch cs. clusters (deduplicate L sa thr items) = cu @ ch @ cs
       \<and> (\<forall>c \<in> set cu. method_c c = ustr ''url_exact'')
       \<and> (\<forall>c \<in> set ch. method_c c = ustr ''hash_match'')
       \<and> (\<forall>c \<in> set cs. method_c c = ustr ''similarity'')"
    using cl mu mh ms by (intro exI[of _ cu] exI[of _ ch] exI[of _ cs]) simp
  have part2: "\<forall>c \<in> set (cu @ ch @ cs). method_c c = ustr ''similarity'' \<longrightarrow>
           (\<exists>ys. representative_url c # member_urls c = map url ys
                \<and> subseq ys items
                \<and> distinct (map ?canon ys)
                \<and> distinct (map (compute_content_hash L) ys))"
  proof (intro ballI impI)
    fix d assume din: "d \<in> set (cu @ ch @ cs)" and m: "method_c d = ustr ''similarity''"
    have "d \<notin> set cu" using mu m ne by auto
    moreover have "d \<notin> set ch" using mh m ne by auto
    ultimately have "d \<in> set cs" using din by simp
    with p3(3) have "method_c d = ustr ''similarity''
        \<and> (\<exists>ys. subseq ys items2 \<and> representative_url d # member_urls d = map url ys)"
      by (rule bspec)
    then obtain ys where ys: "subseq ys items2" "representative_url d # member_urls d = map url ys"
      by (elim conjE exE)
    have y1: "subseq ys items1" using ys(1) sub21 by (rule subseq_order.trans)
    have y0: "subseq ys items" using y1 sub10 by (rule subseq_order.trans)
    have dc: "distinct (map ?canon ys)" using y1 d1 by (rule subseq_distinct_map)
    have dh: "distinct (map (compute_content_hash L) ys)" using ys(1) d2 by (rule subseq_distinct_map)
    show "\<exists>ys. representative_url d # member_urls d = map url ys
                \<and> subseq ys items
                \<and> distinct (map ?canon ys)
                \<and> distinct (map (compute_content_hash L) ys)"
      using ys(2) y0 dc dh by (intro exI[of _ ys]) simp
  qed
  show ?thesis using part1 part2 unfolding cl by simp
qed

theorem similarity_clusters_not_exact_witness:
  "map (\<lambda>c. (representative_url c, member_urls c, method_c c))
       (clusters (deduplicate ascii_lib False (85/100) example_items))
     = [(ustr ''http://a.io/1?ref=x'', [ustr ''http://a.io/1''], ustr ''url_exact''),
        (ustr ''http://a.io/1?ref=x'', [ustr ''http://b.io/2''], ustr ''hash_match''),
        (ustr ''http://a.io/3'', [ustr ''http://c.io/4''], ustr ''similarity'')]
   \<and> canonicalize_url ascii_lib (ustr ''http://a.io/3'')
       \<noteq> canonicalize_url ascii_lib (ustr ''http://c.io/4'')"
proof -
  have a: "map (\<lambda>c. (representative_url c, member_urls c, method_c c))
       (clusters (deduplicate ascii_lib False (85/100) example_items))
     = [(ustr ''http://a.io/1?ref=x'', [ustr ''http://a.io/1''], ustr ''url_exact''),
        (ustr ''http://a.io/1?ref=x'', [ustr ''http://b.io/2''], ustr ''hash_match''),
        (ustr ''http://a.io/3'', [ustr ''http://c.io/4''], ustr ''similarity'')]"
    by code_simp
  have b: "canonicalize_url ascii_lib (ustr ''http://a.io/3'')
       \<noteq> canonicalize_url ascii_lib (ustr ''http://c.io/4'')"
    by code_simp
  show ?thesis
    using a b similarity_clusters_not_exact[of ascii_lib False "85/100" example_items]
    by simp
qed

section \<open>Claims about the analysis of a news item\<close>

text \<open>
  Claim C5, as amended. When both calls of \<open>_call_api\<close> return,
  \<open>_parse_and_validate\<close> raises \<open>ValidationError\<close> on both outputs, and the first 100
  characters of the title hold no surrogate code point, \<open>analyze\<close> returns the
  fallback record with \<open>event_type\<close> other, \<open>impact_direction\<close> neutral,
  \<open>impact_horizon\<close> short, \<open>thesis_relation\<close> unrelated, \<open>confidence\<close> low, the reason
  ``Analysis failed, using fallback'', no key facts and an empty \<open>watch_next\<close>; its
  summary is the first 100 characters of the title when the title is not empty and
  ``No summary'' when it is empty. The tokens and the cost returned are the sums over
  the two calls.
\<close>

theorem analyze_fallback:
  assumes "format_prompt P L news thesis = Inr prompt"
    and "call_api P 0 prompt = Inr (raw1, tokens1, cost1)"
    and "parse_and_validate P L raw1 = Inl (ValidationError m1)"
    and "call_api P 1 (make_strict_prompt prompt m1) = Inr (raw2, tokens2, cost2)"
    and "parse_and_validate P L raw2 = Inl (ValidationError m2)"
    and "str_is_unicode (take 100 (title_n news))"
  shows "analyze P L news thesis =
     Inr (\<lparr>event_type = ustr ''other'', impact_direction = ustr ''neutral'',
           impact_horizon = ustr ''short'', thesis_relation = ustr ''unrelated'',
           confidence = ustr ''low'',
           confidence_reason = ustr ''Analysis failed, using fallback'',
           summary_a = (if title_n news \<noteq> [] then take 100 (title_n news)
                        else ustr ''No summary''),
           key_facts = [], watch_next = []\<rparr>,
          tokens1 + tokens2, cost1 + cost2)"
proof -
  have second: "second_attempt P L news prompt m1 (Some (tokens1, cost1)) =
      fallback_return P L news (Some (tokens1, cost1)) (Some (tokens2, cost2))"
    using assms(4,5) by (simp add: second_attempt_def is_validation_error_def)
  have "analyze P L news thesis = second_attempt P L news prompt m1 (Some (tokens1, cost1))"
    using assms(1,2,3)
    by (simp add: analyze_def first_attempt_failed_def is_validation_error_def py_exc_str_def)
  then show ?thesis
    unfolding second
    by (simp add: fallback_return_def fallback_result_value[OF assms(6)] usage_sum_def)
qed

theorem analyze_fallback_witness:
  "analyze braces_provider braces_lib titled_news [] =
     Inr (\<lparr>event_type = ustr ''other'', impact_direction = ustr ''neutral'',
           impact_horizon = ustr ''short'', thesis_relation = ustr ''unrelated'',
           confidence = ustr ''low'',
           confidence_reason = ustr ''Analysis failed, using fallback'',
           summary_a = ustr ''AMD GPU'', key_facts = [], watch_next = []\<rparr>,
          30, 3 / 1000)"
proof -
  have c0: "call_api braces_provider 0 (ustr ''Analyze'') = Inr (ustr ''{}'', 10, 1 / 1000)"
    by (simp add: braces_provider_def)
  have c1: "call_api braces_provider 1 (make_strict_prompt (ustr ''Analyze'') [])
              = Inr (ustr ''{}'', 20, 2 / 1000)"
    by (simp add: braces_provider_def)
  have t: "title_n titled_news = ustr ''AMD GPU''"
    by (simp add: titled_news_def untitled_news_def)
  have l: "take 100 (ustr ''AMD GPU'') = ustr ''AMD GPU''" "ustr ''AMD GPU'' \<noteq> []"
    by (simp_all add: ustr_def)
  have u: "str_is_unicode (take 100 (title_n titled_news))"
    unfolding t l by (simp add: str_is_unicode_def is_surrogate_def ustr_def)
  show ?thesis
    using analyze_fallback[OF braces_format c0 braces_parse c1 braces_parse u, of "[]"]
    by (simp add: t l)
qed

text \<open>
  Claim C5 as stated fails: for a news item with an empty title, as the Finnhub
  collector builds for an article without a headline, the summary of the fallback
  record is ``No summary'', not the truncated title (which is empty).
\<close>

theorem analyze_fallback_untitled:
  "analyze braces_provider braces_lib untitled_news [] =
     Inr (\<lparr>event_type = ustr ''other'', impact_direction = ustr ''neutral'',
           impact_horizon = ustr ''short'', thesis_relation = ustr ''unrelated'',
           confidence = ustr ''low'',
           confidence_reason = ustr ''Analysis failed, using fallback'',
           summary_a = ustr ''No summary'', key_facts = [], watch_next = []\<rparr>,
          30, 3 / 1000)
   \<and> parse_and_validate braces_provider braces_lib (ustr ''{}'') = Inl (ValidationError [])
   \<and> take 100 (title_n untitled_news) = []
   \<and> ustr ''No summary'' \<noteq> []"
proof -
  have c0: "call_api braces_provider 0 p = Inr (ustr ''{}'', 10, 1 / 1000)" for p
    by (simp add: braces_provider_def)
  have c1: "call_api braces_provider (Suc 0) p = Inr (ustr ''{}'', 20, 2 / 1000)" for p
    by (simp add: braces_provider_def)
  have t: "title_n untitled_news = []"
    by (simp add: untitled_news_def)
  have f: "fallback_result braces_provider braces_lib untitled_news =
     Inr \<lparr>event_type = ustr ''other'', impact_direction = ustr ''neutral'',
           impact_horizon = ustr ''short'', thesis_relation = ustr ''unrelated'',
           confidence = ustr ''low'',
           confidence_reason = ustr ''Analysis failed, using fallback'',
           summary_a = ustr ''No summary'', key_facts = [], watch_next = []\<rparr>"
    unfolding fallback_result_cases t by (simp add: fallback_reason(4))
  have a: "analyze braces_provider braces_lib untitled_news [] =
      fallback_return braces_provider braces_lib untitled_news
        (Some (10, 1 / 1000)) (Some (20, 2 / 1000))"
    by (simp add: analyze_def braces_format c0 c1 braces_parse first_attempt_failed_def
        second_attempt_def is_validation_error_def py_exc_str_def)
  have n: "ustr ''No summary'' \<noteq> []" by (simp add: ustr_def)
  show ?thesis
    unfolding a by (simp add: fallback_return_def f usage_sum_def braces_parse t n)
qed

text \<open>
  Claim C10, as amended. No length makes the validation of a decoded JSON object fail:
  it succeeds exactly when the five \<open>Literal\<close> fields hold valid values, the keys
  \<open>confidence_reason\<close> and \<open>summary\<close> are present, the truncated strings that the
  validators of \<open>confidence_reason\<close>, \<open>summary\<close> and (when the key is present)
  \<open>watch_next\<close> return hold no surrogate code point, and \<open>key_facts\<close> is absent,
  \<open>null\<close>, a list or a string. It raises \<open>ValidationError\<close>, the exception that starts
  the repair attempt, exactly when \<open>key_facts\<close> is of this kind and one of the other
  conditions fails. In the validated record the summary and the reason have at most
  100 characters, \<open>watch_next\<close> at most 50, and there are at most three key facts of
  at most 200 characters, whatever the lengths in the input.
\<close>

theorem model_validate_lengths:
  "((\<exists>out. model_validate es L (JObject kvs) = Inr out) \<longleftrightarrow>
      literal_ok EVENT_TYPES (map_of kvs (ustr ''event_type''))
      \<and> literal_ok IMPACT_DIRECTIONS (map_of kvs (ustr ''impact_direction''))
      \<and> literal_ok IMPACT_HORIZONS (map_of kvs (ustr ''impact_horizon''))
      \<and> literal_ok THESIS_RELATIONS (map_of kvs (ustr ''thesis_relation''))
      \<and> literal_ok CONFIDENCES (map_of kvs (ustr ''confidence''))
      \<and> (case map_of kvs (ustr ''confidence_reason'') of
            None \<Rightarrow> False
          | Some v \<Rightarrow> str_is_unicode (validate_confidence_reason L v))
      \<and> (case map_of kvs (ustr ''summary'') of
            None \<Rightarrow> False
          | Some v \<Rightarrow> str_is_unicode (validate_summary L v))
      \<and> (case map_of kvs (ustr ''watch_next'') of
            None \<Rightarrow> True
          | Some v \<Rightarrow> str_is_unicode (validate_watch_next L v))
      \<and> (case map_of kvs (ustr ''key_facts'') of
            None \<Rightarrow> True
          | Some v \<Rightarrow> v = JNull \<or> (\<exists>xs. v = JArray xs) \<or> (\<exists>s. v = JString s)))
   \<and> ((\<exists>m. model_validate es L (JObject kvs) = Inl (ValidationError m)) \<longleftrightarrow>
        (case map_of kvs (ustr ''key_facts'') of
           None \<Rightarrow> True
         | Some v \<Rightarrow> v = JNull \<or> (\<exists>xs. v = JArray xs) \<or> (\<exists>s. v = JString s))
        \<and> \<not> (literal_ok EVENT_TYPES (map_of kvs (ustr ''event_type''))
               \<and> literal_ok IMPACT_DIRECTIONS (map_of kvs (ustr ''impact_direction''))
               \<and> literal_ok IMPACT_HORIZONS (map_of kvs (ustr ''impact_horizon''))
               \<and> literal_ok THESIS_RELATIONS (map_of kvs (ustr ''thesis_relation''))
               \<and> literal_ok CONFIDENCES (map_of kvs (ustr ''confidence''))
               \<and> (case map_of kvs (ustr ''confidence_reason'') of
                     None \<Rightarrow> False
                   | Some v \<Rightarrow> str_is_unicode (validate_confidence_reason L v))
               \<and> (case map_of kvs (ustr ''summary'') of
                     None \<Rightarrow> False
                   | Some v \<Rightarrow> str_is_unicode (validate_summary L v))
               \<and> (case map_of kvs (ustr ''watch_next'') of
                     None \<Rightarrow> True
                   | Some v \<Rightarrow> str_is_unicode (validate_watch_next L v))))
   \<and> (\<forall>out. model_validate es L (JObject kvs) = Inr out \<longrightarrow>
         summary_a out = validate_summary L (the (map_of kvs (ustr ''summary'')))
         \<and> confidence_reason out
             = validate_confidence_reason L (the (map_of kvs (ustr ''confidence_reason'')))
         \<and> length (summary_a out) \<le> 100
         \<and> length (confidence_reason out) \<le> 100
         \<and> length (watch_next out) \<le> 50
         \<and> length (key_facts out) \<le> 3
         \<and> (\<forall>f \<in> set (key_facts out). length f \<le> 200))"
proof -
  let ?ok = "literal_ok EVENT_TYPES (map_of kvs (ustr ''event_type''))
      \<and> literal_ok IMPACT_DIRECTIONS (map_of kvs (ustr ''impact_direction''))
      \<and> literal_ok IMPACT_HORIZONS (map_of kvs (ustr ''impact_horizon''))
      \<and> literal_ok THESIS_RELATIONS (map_of kvs (ustr ''thesis_relation''))
      \<and> literal_ok CONFIDENCES (map_of kvs (ustr ''confidence''))
      \<and> (case map_of kvs (ustr ''confidence_reason'') of
            None \<Rightarrow> False
          | Some v \<Rightarrow> str_is_unicode (validate_confidence_reason L v))
      \<and> (case map_of kvs (ustr ''summary'') of
            None \<Rightarrow> False
          | Some v \<Rightarrow> str_is_unicode (validate_summary L v))
      \<and> (case map_of kvs (ustr ''watch_next'') of
            None \<Rightarrow> True
          | Some v \<Rightarrow> str_is_unicode (validate_watch_next L v))"
  let ?kf = "case map_of kvs (ustr ''key_facts'') of
               None \<Rightarrow> Inr [] | Some v \<Rightarrow> validate_key_facts L v"
  let ?sl = "case map_of kvs (ustr ''key_facts'') of
               None \<Rightarrow> True
             | Some v \<Rightarrow> v = JNull \<or> (\<exists>xs. v = JArray xs) \<or> (\<exists>s. v = JString s)"
  have sl: "?sl \<longleftrightarrow> \<not> isl ?kf"
    using validate_key_facts_ok[of L] by (simp split: option.splits)
  show ?thesis
  proof (cases ?kf)
    case (Inl e)
    then have "model_validate es L (JObject kvs) = Inl e"
      by (simp add: model_validate_def Let_def)
    moreover have "\<not> ?sl" using sl Inl by simp
    moreover have "e = TypeError"
      using Inl validate_key_facts_raises[of L _ e] by (simp split: option.splits)
    ultimately show ?thesis by simp
  next
    case (Inr facts)
    have len: "length facts \<le> 3 \<and> (\<forall>f \<in> set facts. length f \<le> 200)"
      using Inr validate_key_facts_lengths[of L _ facts] by (simp split: option.splits)
    have "?sl" using sl Inr by simp
    show ?thesis
    proof (cases ?ok)
      case True
      have wn: "length (case map_of kvs (ustr ''watch_next'') of
                   None \<Rightarrow> [] | Some v \<Rightarrow> validate_watch_next L v) \<le> 50"
        by (simp add: validate_watch_next_def split: option.splits)
      have s: "length (validate_summary L x) \<le> 100"
        and c: "length (validate_confidence_reason L x) \<le> 100" for x
        by (simp_all add: validate_summary_def validate_confidence_reason_def)
      have "model_validate es L (JObject kvs) =
          Inr \<lparr>event_type = py_str L (the (map_of kvs (ustr ''event_type''))),
               impact_direction = py_str L (the (map_of kvs (ustr ''impact_direction''))),
               impact_horizon = py_str L (the (map_of kvs (ustr ''impact_horizon''))),
               thesis_relation = py_str L (the (map_of kvs (ustr ''thesis_relation''))),
               confidence = py_str L (the (map_of kvs (ustr ''confidence''))),
               confidence_reason =
                 validate_confidence_reason L (the (map_of kvs (ustr ''confidence_reason''))),
               summary_a = validate_summary L (the (map_of kvs (ustr ''summary''))),
               key_facts = facts,
               watch_next = (case map_of kvs (ustr ''watch_next'') of
                               None \<Rightarrow> [] | Some v \<Rightarrow> validate_watch_next L v)\<rparr>"
        using Inr True by (simp add: model_validate_def Let_def)
      then show ?thesis using True \<open>?sl\<close> len wn s c by simp
    next
      case False
      then have "model_validate es L (JObject kvs) = Inl (ValidationError (es (JObject kvs)))"
        using Inr by (simp add: model_validate_def Let_def)
      then show ?thesis using False \<open>?sl\<close> by auto
    qed
  qed
qed

theorem model_validate_lengths_witness:
  "model_validate (validation_error_str braces_provider) ascii_lib (JObject long_answer) =
     Inr \<lparr>event_type = ustr ''earnings'', impact_direction = ustr ''bullish'',
          impact_horizon = ustr ''short'', thesis_relation = ustr ''supports'',
          confidence = ustr ''high'', confidence_reason = ustr ''filing'',
          summary_a = replicate 100 97, key_facts = [], watch_next = []\<rparr>
   \<and> literal_ok EVENT_TYPES (map_of long_answer (ustr ''event_type''))
   \<and> literal_ok CONFIDENCES (map_of long_answer (ustr ''confidence''))
   \<and> map_of long_answer (ustr ''summary'') = Some (JString (replicate 150 97))
   \<and> map_of long_answer (ustr ''key_facts'') = None
   \<and> length (replicate 100 (97::nat)) \<le> 100"
proof -
  have ok: "\<exists>out. model_validate (validation_error_str braces_provider) ascii_lib
              (JObject long_answer) = Inr out"
    using model_validate_lengths[of "validation_error_str braces_provider" ascii_lib long_answer]
    by (simp add: long_answer_lookups long_answer_literals long_answer_strings)
  have a: "model_validate (validation_error_str braces_provider) ascii_lib (JObject long_answer) =
     Inr \<lparr>event_type = ustr ''earnings'', impact_direction = ustr ''bullish'',
          impact_horizon = ustr ''short'', thesis_relation = ustr ''supports'',
          confidence = ustr ''high'', confidence_reason = ustr ''filing'',
          summary_a = replicate 100 97, key_facts = [], watch_next = []\<rparr>"
    unfolding model_validate_def json.case Let_def long_answer_lookups option.case option.sel
    by (simp add: long_answer_literals long_answer_strings py_str_def)
  show ?thesis
    using a ok by (simp add: long_answer_lookups long_answer_literals)
qed

text \<open>
  Claim C10 as stated fails: a decoded answer with five valid \<open>Literal\<close> fields and
  neither \<open>summary\<close> nor \<open>confidence_reason\<close> fails validation.
\<close>

theorem model_validate_missing_summary:
  "model_validate (validation_error_str braces_provider) ascii_lib (JObject enums_only)
     = Inl (ValidationError [])
   \<and> literal_ok EVENT_TYPES (map_of enums_only (ustr ''event_type''))
   \<and> literal_ok IMPACT_DIRECTIONS (map_of enums_only (ustr ''impact_direction''))
   \<and> literal_ok IMPACT_HORIZONS (map_of enums_only (ustr ''impact_horizon''))
   \<and> literal_ok THESIS_RELATIONS (map_of enums_only (ustr ''thesis_relation''))
   \<and> literal_ok CONFIDENCES (map_of enums_only (ustr ''confidence''))"
  by code_simp

end
